theory Spec2Isabelle
  imports Complex_Main "HOL-Library.Log_Nat" "HOL-Library.AList"
begin

section \<open>Wire values\<close>

text \<open>
  A JSON number literal, as the decoder sees it before any conversion. \<open>JInt neg n\<close> is a
  literal made of an optional minus sign and digits only (\<open>12345\<close>, \<open>-7\<close>, \<open>-0\<close>).
  \<open>JDec neg d x\<close> is a literal with a fraction part, an exponent part or both; \<open>d\<close> holds
  its digits read without the point and the literal denotes \<open>d * 10 ^ x\<close>
  (\<open>12.7\<close> is \<open>JDec False 127 (-1)\<close>, \<open>1e3\<close> is \<open>JDec False 1 3\<close>,
  \<open>5000.0\<close> is \<open>JDec False 50000 (-1)\<close>).
\<close>

datatype jnum = JInt bool nat | JDec bool nat int

text \<open>
  A JSON document after scanning: strings are unquoted, members of an object keep their
  order and their duplicates.
\<close>

datatype json =
    JNull
  | JBool bool
  | JNumber jnum
  | JString string
  | JArray "json list"
  | JObject "(string \<times> json) list"

section \<open>Errors\<close>

text \<open>
  \<open>SyntaxError\<close>: \<open>encoding/json\<close> was given bytes that are not a JSON document.
  \<open>UnmarshalTypeError v t\<close>: a JSON value described by \<open>v\<close> cannot be stored in the Go type
  \<open>t\<close> (the literal text and the field path that Go adds to the message are left out).
  \<open>ErrorString\<close>: an error made by \<open>fmt.Errorf\<close>, with its message.
  \<open>TransportError\<close>: whatever the HTTP round trip reports (connection, DNS, TLS, timeout).
  \<open>RequestError\<close>: the HTTP library gave up before or between requests (a URL that does
  not parse, a header it refuses, too many redirects), with a word on the cause.
\<close>

datatype error =
    SyntaxError
  | UnmarshalTypeError string string
  | ErrorString string
  | TransportError string
  | RequestError string

section \<open>64-bit floats and their text\<close>

text \<open>
  A finite IEEE 754 binary64 value \<open>(-1)^sign * mant * 2^expo\<close>. JSON decoding never
  produces an infinity or a NaN: a literal out of range is an error.

  The package \<open>strconv\<close> is written down with exact integer arithmetic.
  \<open>ParseFloat\<close> rounds the number of the literal to the nearest float, a tie to the even
  mantissa, as the package documents; \<open>FormatFloat\<close> with format \<open>'f'\<close> and precision 0
  prints the exact value of the float rounded to an integer, a tie to the even one, with
  the minus sign of the float in front (so the float \<open>-0\<close> and \<open>-0.3\<close> give \<open>-0\<close>).
\<close>

datatype float64 = Float64 (sign: bool) (mant: nat) (expo: int)

definition round_half_even :: "nat \<Rightarrow> nat \<Rightarrow> nat" where
  "round_half_even a b =
     (let k = a div b; r = a mod b
      in if 2 * r < b then k
         else if b < 2 * r then k + 1
         else if even k then k else k + 1)"

definition pow2_le :: "int \<Rightarrow> nat \<Rightarrow> nat \<Rightarrow> bool" where
  \<comment> \<open>\<open>2^c \<le> a / b\<close>\<close>
  "pow2_le c a b = (if 0 \<le> c then b * 2 ^ nat c \<le> a else b \<le> a * 2 ^ nat (- c))"

definition ilog2 :: "nat \<Rightarrow> nat \<Rightarrow> int" where
  \<comment> \<open>the binary exponent of \<open>a / b\<close>: \<open>2^e \<le> a / b < 2^(e + 1)\<close>\<close>
  "ilog2 a b =
     (let c = int (floorlog 2 a) - int (floorlog 2 b)
      in if pow2_le c a b then c else c - 1)"

definition round_float64 :: "bool \<Rightarrow> nat \<Rightarrow> nat \<Rightarrow> float64 option" where
  \<comment> \<open>\<open>a / b\<close> rounded to the nearest binary64 value, ties to even; \<open>None\<close> when the
      rounded value is out of range (\<open>strconv.ParseFloat\<close> reports \<open>ErrRange\<close>)\<close>
  "round_float64 s a b =
     (if a = 0 then Some (Float64 s 0 (- 1074))
      else
        let e = ilog2 a b;
            p = max (e - 52) (- 1074);
            m = (if 0 \<le> p then round_half_even a (b * 2 ^ nat p)
                 else round_half_even (a * 2 ^ nat (- p)) b);
            (m', p') = (if m = 2 ^ 53 then (2 ^ 52, p + 1) else (m, p))
        in if 971 < p' then None else Some (Float64 s m' p'))"

fun ParseFloat :: "jnum \<Rightarrow> float64 option" where
  "ParseFloat (JInt s n) = round_float64 s n 1"
| "ParseFloat (JDec s d x) =
     (if 0 \<le> x then round_float64 s (d * 10 ^ nat x) 1
      else round_float64 s d (10 ^ nat (- x)))"

definition digit_char :: "nat \<Rightarrow> char" where
  "digit_char n = ''0123456789'' ! n"

fun decimal :: "nat \<Rightarrow> string" where
  "decimal n = (if n < 10 then [digit_char n] else decimal (n div 10) @ [digit_char (n mod 10)])"

declare decimal.simps [simp del]

definition float_to_integer :: "float64 \<Rightarrow> nat" where
  \<comment> \<open>the magnitude rounded to an integer, ties to even\<close>
  "float_to_integer f =
     (if 0 \<le> expo f then mant f * 2 ^ nat (expo f)
      else round_half_even (mant f) (2 ^ nat (- expo f)))"

definition FormatFloat :: "float64 \<Rightarrow> string" where
  \<comment> \<open>\<open>strconv.FormatFloat(v, 'f', 0, 64)\<close>\<close>
  "FormatFloat f = (if sign f then ''-'' else '''') @ decimal (float_to_integer f)"

section \<open>Decoding with \<open>encoding/json\<close>\<close>

text \<open>
  A decoder for a Go type takes the JSON value and what the target holds, and gives
  \<open>Inl e\<close> when decoding stops at once with the error \<open>e\<close> (an \<open>UnmarshalJSON\<close> method
  failed), or \<open>Inr (x, te)\<close>: the target now holds \<open>x\<close>, and \<open>te\<close> is the first type
  error met, if there was one. Go records that first type error in the decoder state
  (\<open>saveError\<close>), goes on decoding and returns it at the end; \<open>first_error\<close> does the
  same for two steps in a row.
\<close>

type_synonym 'a store = "json \<Rightarrow> 'a \<Rightarrow> error + 'a \<times> error option"

definition first_error :: "error option \<Rightarrow> error option \<Rightarrow> error option" where
  "first_error e1 e2 = (case e1 of None \<Rightarrow> e2 | Some e \<Rightarrow> Some e)"

fun json_kind :: "json \<Rightarrow> string" where
  "json_kind JNull = ''null''"
| "json_kind (JBool b) = ''bool''"
| "json_kind (JNumber n) = ''number''"
| "json_kind (JString s) = ''string''"
| "json_kind (JArray vs) = ''array''"
| "json_kind (JObject ms) = ''object''"

definition mismatch :: "json \<Rightarrow> string \<Rightarrow> error" where
  "mismatch v ty = UnmarshalTypeError (json_kind v) ty"

subsection \<open>Into an empty interface\<close>

text \<open>
  What \<open>json.Unmarshal\<close> stores in an \<open>interface{}\<close>: \<open>nil\<close>, \<open>bool\<close>, \<open>float64\<close>,
  \<open>string\<close>, \<open>[]interface{}\<close> or \<open>map[string]interface{}\<close>. A number out of the range of
  \<open>float64\<close> is a type error and leaves \<open>nil\<close> in its place.
\<close>

datatype iface =
    INil
  | IBool bool
  | IFloat64 float64
  | IString string
  | ISlice "iface list"
  | IMap "(string \<times> iface) list"

definition convertNumber :: "jnum \<Rightarrow> error + float64" where
  "convertNumber n =
     (case ParseFloat n of
        None \<Rightarrow> Inl (UnmarshalTypeError ''number'' ''float64'')
      | Some f \<Rightarrow> Inr f)"

fun valueInterface :: "json \<Rightarrow> iface \<times> error option"
  and arrayInterface :: "json list \<Rightarrow> iface list \<times> error option"
  and objectInterface :: "(string \<times> json) list \<Rightarrow> (string \<times> iface) list
        \<Rightarrow> (string \<times> iface) list \<times> error option"
where
  "valueInterface JNull = (INil, None)"
| "valueInterface (JBool b) = (IBool b, None)"
| "valueInterface (JString x) = (IString x, None)"
| "valueInterface (JNumber n) =
     (case convertNumber n of
        Inl e \<Rightarrow> (INil, Some e)
      | Inr f \<Rightarrow> (IFloat64 f, None))"
| "valueInterface (JArray vs) = (case arrayInterface vs of (xs, e) \<Rightarrow> (ISlice xs, e))"
| "valueInterface (JObject ms) = (case objectInterface ms [] of (m, e) \<Rightarrow> (IMap m, e))"
| "arrayInterface [] = ([], None)"
| "arrayInterface (v # vs) =
     (case valueInterface v of (x, e1) \<Rightarrow>
        (case arrayInterface vs of (xs, e2) \<Rightarrow> (x # xs, first_error e1 e2)))"
| "objectInterface [] m = (m, None)"
| "objectInterface ((k, v) # ms) m =
     (case valueInterface v of (x, e1) \<Rightarrow>
        (case objectInterface ms (AList.update k x m) of (m', e2) \<Rightarrow> (m', first_error e1 e2)))"

definition store_interface :: "iface store" where
  "store_interface v cur = Inr (valueInterface v)"

subsection \<open>\<open>json.Unmarshal\<close>\<close>

definition Unmarshal :: "'a store \<Rightarrow> 'a \<Rightarrow> json option \<Rightarrow> error + 'a" where
  \<comment> \<open>\<open>json.Unmarshal(data, &target)\<close>; \<open>None\<close> stands for bytes that are not a JSON
      document\<close>
  "Unmarshal st target data =
     (case data of
        None \<Rightarrow> Inl SyntaxError
      | Some j \<Rightarrow>
          (case st j target of
             Inl e \<Rightarrow> Inl e
           | Inr (x, Some e) \<Rightarrow> Inl e
           | Inr (x, None) \<Rightarrow> Inr x))"

fun type_name :: "iface \<Rightarrow> string" where
  \<comment> \<open>the verb \<open>%T\<close> of \<open>fmt\<close>\<close>
  "type_name INil = ''<nil>''"
| "type_name (IBool b) = ''bool''"
| "type_name (IFloat64 f) = ''float64''"
| "type_name (IString s) = ''string''"
| "type_name (ISlice xs) = ''[]interface {}''"
| "type_name (IMap m) = ''map[string]interface {}''"

section \<open>The flexible identifier\<close>

type_synonym ClientID = string

definition UnmarshalJSON :: "json option \<Rightarrow> error + ClientID" where
  "UnmarshalJSON data =
     (case Unmarshal store_interface INil data of
        Inl err \<Rightarrow> Inl err
      | Inr v \<Rightarrow>
          (case v of
             IString s \<Rightarrow> Inr s
           | IFloat64 f \<Rightarrow> Inr (FormatFloat f)
           | _ \<Rightarrow> Inl (ErrorString (''user_id: expected string or number, got '' @ type_name v))))"

definition ClientID_String :: "ClientID \<Rightarrow> string" where
  \<comment> \<open>the method \<open>String\<close>\<close>
  "ClientID_String c = c"

section \<open>Decoding into the types of the client\<close>

subsection \<open>Scalars, pointers, slices and maps\<close>

fun ParseInt :: "jnum \<Rightarrow> int option" where
  \<comment> \<open>\<open>strconv.ParseInt(literal, 10, 64)\<close>: digits only, within 64 bits (the width of
      \<open>int\<close> on a 64-bit platform)\<close>
  "ParseInt (JInt s n) =
     (let i = (if s then - int n else int n)
      in if - (2 ^ 63) \<le> i \<and> i < 2 ^ 63 then Some i else None)"
| "ParseInt (JDec s d x) = None"

definition store_int :: "int store" where
  "store_int v cur =
     (case v of
        JNull \<Rightarrow> Inr (cur, None)
      | JNumber n \<Rightarrow>
          (case ParseInt n of
             Some i \<Rightarrow> Inr (i, None)
           | None \<Rightarrow> Inr (cur, Some (mismatch v ''int'')))
      | _ \<Rightarrow> Inr (cur, Some (mismatch v ''int'')))"

definition store_float64 :: "float64 store" where
  "store_float64 v cur =
     (case v of
        JNull \<Rightarrow> Inr (cur, None)
      | JNumber n \<Rightarrow>
          (case ParseFloat n of
             Some f \<Rightarrow> Inr (f, None)
           | None \<Rightarrow> Inr (cur, Some (mismatch v ''float64'')))
      | _ \<Rightarrow> Inr (cur, Some (mismatch v ''float64'')))"

definition store_string :: "string store" where
  "store_string v cur =
     (case v of
        JNull \<Rightarrow> Inr (cur, None)
      | JString x \<Rightarrow> Inr (x, None)
      | _ \<Rightarrow> Inr (cur, Some (mismatch v ''string'')))"

definition store_bool :: "bool store" where
  "store_bool v cur =
     (case v of
        JNull \<Rightarrow> Inr (cur, None)
      | JBool b \<Rightarrow> Inr (b, None)
      | _ \<Rightarrow> Inr (cur, Some (mismatch v ''bool'')))"

text \<open>
  A pointer: \<open>null\<close> sets it to \<open>nil\<close>; any other value is decoded into what it points
  to, a fresh zero value when it was \<open>nil\<close>.
\<close>

definition store_ptr :: "'a store \<Rightarrow> 'a \<Rightarrow> 'a option store" where
  "store_ptr st zero v cur =
     (case v of
        JNull \<Rightarrow> Inr (None, None)
      | _ \<Rightarrow>
          (case st v (case cur of None \<Rightarrow> zero | Some x \<Rightarrow> x) of
             Inl e \<Rightarrow> Inl e
           | Inr (x, te) \<Rightarrow> Inr (Some x, te)))"

text \<open>
  A slice is a view of given length on a backing array. Decoding an array into it keeps
  that backing array: the element at position \<open>i\<close> of the array is decoded into what the
  backing array holds at \<open>i\<close>, which is the element the slice had there, or an element an
  earlier and longer round left behind beyond the length, or a zero value where nothing
  was written yet; at the end the length is the number of elements of the array. So a
  slice is written as the pair of its elements and of what the backing array still holds
  beyond them. An empty array gives a new empty slice, and so does \<open>null\<close>. A \<open>nil\<close>
  slice and an empty one are both \<open>[]\<close>.
\<close>

fun array_into :: "'a store \<Rightarrow> 'a \<Rightarrow> 'a list \<Rightarrow> json list \<Rightarrow> error + 'a list \<times> error option" where
  "array_into st zero backing [] = Inr ([], None)"
| "array_into st zero backing (v # vs) =
     (case st v (case backing of [] \<Rightarrow> zero | b # bs \<Rightarrow> b) of
        Inl e \<Rightarrow> Inl e
      | Inr (x, e1) \<Rightarrow>
          (case array_into st zero (tl backing) vs of
             Inl e \<Rightarrow> Inl e
           | Inr (xs, e2) \<Rightarrow> Inr (x # xs, first_error e1 e2)))"

definition store_slice :: "'a store \<Rightarrow> 'a \<Rightarrow> string \<Rightarrow> ('a list \<times> 'a list) store" where
  "store_slice st zero ty v cur =
     (case v of
        JNull \<Rightarrow> Inr (([], []), None)
      | JArray vs \<Rightarrow>
          (case array_into st zero (fst cur @ snd cur) vs of
             Inl e \<Rightarrow> Inl e
           | Inr (xs, te) \<Rightarrow>
               Inr ((xs, if vs = [] then [] else drop (length vs) (fst cur @ snd cur)), te))
      | _ \<Rightarrow> Inr (cur, Some (mismatch v ty)))"

text \<open>A \<open>map[string]interface{}\<close>: the members are added to the map that is there.\<close>

definition store_map :: "(string \<times> iface) list store" where
  "store_map v cur =
     (case v of
        JNull \<Rightarrow> Inr ([], None)
      | JObject ms \<Rightarrow> Inr (objectInterface ms cur)
      | _ \<Rightarrow> Inr (cur, Some (mismatch v ''map[string]interface {}'')))"

text \<open>
  A type with an \<open>UnmarshalJSON\<close> method is handed every value, \<open>null\<close> too; an error
  of the method stops the decoder.
\<close>

definition store_ClientID :: "ClientID store" where
  "store_ClientID v cur =
     (case UnmarshalJSON (Some v) of
        Inl err \<Rightarrow> Inl err
      | Inr c \<Rightarrow> Inr (c, None))"

subsection \<open>Structs\<close>

text \<open>
  The key of a member selects the field whose tag equals it, else the first field whose
  tag equals it under Unicode simple case folding. All tags of this client are ASCII, so
  folding is written out for what can meet an ASCII letter: the other case of the letter,
  the long s (U+017F, bytes C5 BF) for \<open>s\<close> and the Kelvin sign (U+212A, bytes E2 84 AA)
  for \<open>k\<close>. Other bytes stay as they are.
\<close>

definition upper_byte :: "char \<Rightarrow> char" where
  "upper_byte c =
     (case map_of (zip ''abcdefghijklmnopqrstuvwxyz'' ''ABCDEFGHIJKLMNOPQRSTUVWXYZ'') c of
        None \<Rightarrow> c
      | Some u \<Rightarrow> u)"

fun foldName :: "string \<Rightarrow> string" where
  "foldName (a # b # c # cs) =
     (if a = CHR 0xE2 \<and> b = CHR 0x84 \<and> c = CHR 0xAA then CHR ''K'' # foldName cs
      else if a = CHR 0xC5 \<and> b = CHR 0xBF then CHR ''S'' # foldName (c # cs)
      else upper_byte a # foldName (b # c # cs))"
| "foldName [a, b] =
     (if a = CHR 0xC5 \<and> b = CHR 0xBF then [CHR ''S''] else [upper_byte a, upper_byte b])"
| "foldName [a] = [upper_byte a]"
| "foldName [] = []"

definition resolve :: "string list \<Rightarrow> string \<Rightarrow> string option" where
  "resolve names key =
     (if key \<in> set names then Some key
      else find (\<lambda>n. foldName n = foldName key) names)"

text \<open>
  A struct is decoded from an object member by member, in the order of the document;
  members that select no field are skipped. \<open>null\<close> leaves a struct as it is.
  The fields of a struct are listed with their tags, each with the decoder of its type.
\<close>

definition field :: "('r \<Rightarrow> 'a) \<Rightarrow> (('a \<Rightarrow> 'a) \<Rightarrow> 'r \<Rightarrow> 'r) \<Rightarrow> 'a store \<Rightarrow> 'r store" where
  "field get upd st v r =
     (case st v (get r) of
        Inl e \<Rightarrow> Inl e
      | Inr (x, te) \<Rightarrow> Inr (upd (\<lambda>_. x) r, te))"

fun object_into :: "(string \<times> 'r store) list \<Rightarrow> (string \<times> json) list \<Rightarrow> 'r
      \<Rightarrow> error + 'r \<times> error option" where
  "object_into fields [] r = Inr (r, None)"
| "object_into fields ((k, v) # ms) r =
     (case resolve (map fst fields) k of
        None \<Rightarrow> object_into fields ms r
      | Some n \<Rightarrow>
          (case map_of fields n of
             None \<Rightarrow> object_into fields ms r
           | Some st \<Rightarrow>
               (case st v r of
                  Inl e \<Rightarrow> Inl e
                | Inr (r1, e1) \<Rightarrow>
                    (case object_into fields ms r1 of
                       Inl e \<Rightarrow> Inl e
                     | Inr (r2, e2) \<Rightarrow> Inr (r2, first_error e1 e2)))))"

definition store_struct :: "string \<Rightarrow> (string \<times> 'r store) list \<Rightarrow> 'r store" where
  "store_struct ty fields v cur =
     (case v of
        JNull \<Rightarrow> Inr (cur, None)
      | JObject ms \<Rightarrow> object_into fields ms cur
      | _ \<Rightarrow> Inr (cur, Some (mismatch v ty)))"

subsection \<open>The response types\<close>

record TokenResponse =
  AccessToken :: string
  TokenType :: string
  UserID :: ClientID

definition fields_TokenResponse :: "(string \<times> TokenResponse store) list" where
  "fields_TokenResponse =
     [(''access_token'', field AccessToken AccessToken_update store_string),
      (''token_type'', field TokenType TokenType_update store_string),
      (''user_id'', field UserID UserID_update store_ClientID)]"

definition zero_TokenResponse :: TokenResponse where
  "zero_TokenResponse = \<lparr>AccessToken = [], TokenType = [], UserID = []\<rparr>"

definition store_TokenResponse :: "TokenResponse store" where
  "store_TokenResponse = store_struct ''truecoach.TokenResponse'' fields_TokenResponse"

record UserProfile =
  ID :: int
  ClientID :: ClientID
  Email :: string
  FirstName :: string
  LastName :: string
  Timezone :: string
  Units :: string
  Weight :: "float64 option"
  Height :: "int option"
  ImageID :: "int option"

definition zero_float64 :: float64 where
  "zero_float64 = Float64 False 0 (- 1074)"

definition fields_UserProfile :: "(string \<times> UserProfile store) list" where
  "fields_UserProfile =
     [(''id'', field ID ID_update store_int),
      (''client_id'', field ClientID ClientID_update store_ClientID),
      (''email'', field Email Email_update store_string),
      (''first_name'', field FirstName FirstName_update store_string),
      (''last_name'', field LastName LastName_update store_string),
      (''timezone'', field Timezone Timezone_update store_string),
      (''units'', field Units Units_update store_string),
      (''weight'', field Weight Weight_update (store_ptr store_float64 zero_float64)),
      (''height'', field Height Height_update (store_ptr store_int 0)),
      (''image_id'', field ImageID ImageID_update (store_ptr store_int 0))]"

definition zero_UserProfile :: UserProfile where
  "zero_UserProfile =
     \<lparr>ID = 0, ClientID = [], Email = [], FirstName = [], LastName = [], Timezone = [],
      Units = [], Weight = None, Height = None, ImageID = None\<rparr>"

definition store_UserProfile :: "UserProfile store" where
  "store_UserProfile = store_struct ''truecoach.UserProfile'' fields_UserProfile"

record UserProfileResponse =
  User :: UserProfile

definition fields_UserProfileResponse :: "(string \<times> UserProfileResponse store) list" where
  "fields_UserProfileResponse = [(''user'', field User User_update store_UserProfile)]"

definition zero_UserProfileResponse :: UserProfileResponse where
  "zero_UserProfileResponse = \<lparr>User = zero_UserProfile\<rparr>"

definition store_UserProfileResponse :: "UserProfileResponse store" where
  "store_UserProfileResponse =
     store_struct ''truecoach.UserProfileResponse'' fields_UserProfileResponse"

text \<open>
  The fields \<open>ID\<close>, \<open>Weight\<close> and \<open>ClientID\<close> of a tracking entry carry the prefix
  \<open>Tracking\<close>, the names being taken by the profile.
\<close>

record HabitTrackerTracking =
  TrackingID :: int
  Calories :: "float64 option"
  Date :: string
  Protein :: "float64 option"
  Carbs :: "float64 option"
  Fat :: "float64 option"
  TrackingWeight :: "float64 option"
  Sleep :: "float64 option"
  Steps :: "int option"
  Energy :: "float64 option"
  Hunger :: "float64 option"
  Stress :: "float64 option"
  Notes :: "string option"
  TrackingClientID :: int
  CreatedAt :: string
  UpdatedAt :: string

definition fields_HabitTrackerTracking :: "(string \<times> HabitTrackerTracking store) list" where
  "fields_HabitTrackerTracking =
     [(''id'', field TrackingID TrackingID_update store_int),
      (''calories'', field Calories Calories_update (store_ptr store_float64 zero_float64)),
      (''date'', field Date Date_update store_string),
      (''protein'', field Protein Protein_update (store_ptr store_float64 zero_float64)),
      (''carbs'', field Carbs Carbs_update (store_ptr store_float64 zero_float64)),
      (''fat'', field Fat Fat_update (store_ptr store_float64 zero_float64)),
      (''weight'', field TrackingWeight TrackingWeight_update
         (store_ptr store_float64 zero_float64)),
      (''sleep'', field Sleep Sleep_update (store_ptr store_float64 zero_float64)),
      (''steps'', field Steps Steps_update (store_ptr store_int 0)),
      (''energy'', field Energy Energy_update (store_ptr store_float64 zero_float64)),
      (''hunger'', field Hunger Hunger_update (store_ptr store_float64 zero_float64)),
      (''stress'', field Stress Stress_update (store_ptr store_float64 zero_float64)),
      (''notes'', field Notes Notes_update (store_ptr store_string [])),
      (''client_id'', field TrackingClientID TrackingClientID_update store_int),
      (''created_at'', field CreatedAt CreatedAt_update store_string),
      (''updated_at'', field UpdatedAt UpdatedAt_update store_string)]"

definition zero_HabitTrackerTracking :: HabitTrackerTracking where
  "zero_HabitTrackerTracking =
     \<lparr>TrackingID = 0, Calories = None, Date = [], Protein = None, Carbs = None, Fat = None,
      TrackingWeight = None, Sleep = None, Steps = None, Energy = None, Hunger = None,
      Stress = None, Notes = None, TrackingClientID = 0, CreatedAt = [], UpdatedAt = []\<rparr>"

definition store_HabitTrackerTracking :: "HabitTrackerTracking store" where
  "store_HabitTrackerTracking =
     store_struct ''truecoach.HabitTrackerTracking'' fields_HabitTrackerTracking"

text \<open>
  \<open>Trackings\<close> is the slice as the caller sees it; \<open>TrackingsSpare\<close> is what its backing
  array holds beyond its length.
\<close>

record HabitTrackerResponse =
  Trackings :: "HabitTrackerTracking list"
  PreviousDuration :: "(string \<times> iface) list"
  NextDuration :: "(string \<times> iface) list"
  CurrentDuration :: "(string \<times> iface) list"
  IsPrevious :: bool
  TrackingsSpare :: "HabitTrackerTracking list"

definition Trackings_slice :: "HabitTrackerResponse
      \<Rightarrow> HabitTrackerTracking list \<times> HabitTrackerTracking list" where
  "Trackings_slice r = (Trackings r, TrackingsSpare r)"

definition Trackings_slice_update ::
    "(HabitTrackerTracking list \<times> HabitTrackerTracking list
        \<Rightarrow> HabitTrackerTracking list \<times> HabitTrackerTracking list)
      \<Rightarrow> HabitTrackerResponse \<Rightarrow> HabitTrackerResponse" where
  "Trackings_slice_update f r =
     r\<lparr>Trackings := fst (f (Trackings_slice r)), TrackingsSpare := snd (f (Trackings_slice r))\<rparr>"

definition fields_HabitTrackerResponse :: "(string \<times> HabitTrackerResponse store) list" where
  "fields_HabitTrackerResponse =
     [(''trackings'', field Trackings_slice Trackings_slice_update
         (store_slice store_HabitTrackerTracking zero_HabitTrackerTracking
            ''[]truecoach.HabitTrackerTracking'')),
      (''previous_duration'', field PreviousDuration PreviousDuration_update store_map),
      (''next_duration'', field NextDuration NextDuration_update store_map),
      (''current_duration'', field CurrentDuration CurrentDuration_update store_map),
      (''is_previous'', field IsPrevious IsPrevious_update store_bool)]"

definition zero_HabitTrackerResponse :: HabitTrackerResponse where
  "zero_HabitTrackerResponse =
     \<lparr>Trackings = [], PreviousDuration = [], NextDuration = [], CurrentDuration = [],
      IsPrevious = False, TrackingsSpare = []\<rparr>"

definition store_HabitTrackerResponse :: "HabitTrackerResponse store" where
  "store_HabitTrackerResponse =
     store_struct ''truecoach.HabitTrackerResponse'' fields_HabitTrackerResponse"

text \<open>The local struct \<open>wrapper\<close> of \<open>GetHabitTrackers\<close>.\<close>

record wrapper =
  Response :: HabitTrackerResponse

definition fields_wrapper :: "(string \<times> wrapper store) list" where
  "fields_wrapper = [(''response'', field Response Response_update store_HabitTrackerResponse)]"

definition zero_wrapper :: wrapper where
  "zero_wrapper = \<lparr>Response = zero_HabitTrackerResponse\<rparr>"

definition store_wrapper :: "wrapper store" where
  "store_wrapper =
     store_struct ''struct { Response truecoach.HabitTrackerResponse }'' fields_wrapper"

section \<open>The HTTP library\<close>

text \<open>
  The package \<open>resty.dev/v3\<close> is not part of the repository. Its request execution is
  written down as far as the client relies on it:
  \<^item> a request is built from the base URL and the headers of the client and from what
    the request itself sets, a header of the request taking precedence;
  \<^item> executing it is one exchange with \<open>net/http\<close> (the client leaves the retry count at
    its default, zero), and an error of the exchange is returned as it is;
  \<^item> the body of a response with a status from 200 to 299, 204 apart, is decoded by
    \<open>encoding/json\<close> into the value given to \<open>SetResult\<close>, one document after the other
    until the body ends: an empty body leaves that value as it was and is no error,
    bytes that are no document are an error;
  \<^item> a response with any other status is no error and leaves that value as it was.

  Responses are taken to carry a JSON content type, and a body that is empty, or one
  document, or no JSON at all; a body of several documents in a row is left out. In a
  response \<open>payload\<close> is the document the body consists of, \<open>None\<close> when the body is
  not one document, and \<open>blank\<close> tells for such a body that it is empty (or white space
  only). \<open>redirect_to\<close> is where the \<open>Location\<close> header of the response leads, resolved
  against the URL of the request.

  The network is a parameter: it answers a request that the client executes, given the
  requests executed before, with the final response of the exchange or with its error.
\<close>

record http_request =
  req_method :: string
  req_url :: string
  req_headers :: "string \<rightharpoonup> string"
  req_query :: "string \<rightharpoonup> string"
  req_body :: "(string \<rightharpoonup> string) option"

datatype location = NoLocation | BadLocation | Target string

record http_response =
  status :: nat
  payload :: "json option"
  blank :: bool
  redirect_to :: location

type_synonym network = "http_request list \<Rightarrow> http_request \<Rightarrow> error + http_response"

record resty_Client =
  baseURL :: string
  header :: "string \<rightharpoonup> string"

record resty_Request =
  Header :: "string \<rightharpoonup> string"
  QueryParams :: "string \<rightharpoonup> string"
  Body :: "(string \<rightharpoonup> string) option"

record 'a resty_Request_with_Result = resty_Request +
  Result :: 'a
  Decode :: "'a store"

record 'a resty_Response =
  StatusCode :: nat
  ResultOf :: 'a

definition resty_New :: resty_Client where
  "resty_New = \<lparr>baseURL = [], header = Map.empty\<rparr>"

definition SetBaseURL :: "string \<Rightarrow> resty_Client \<Rightarrow> resty_Client" where
  "SetBaseURL u c = c\<lparr>baseURL := u\<rparr>"

definition Client_SetHeader :: "string \<Rightarrow> string \<Rightarrow> resty_Client \<Rightarrow> resty_Client" where
  "Client_SetHeader k v c = c\<lparr>header := (header c)(k \<mapsto> v)\<rparr>"

definition R :: "resty_Client \<Rightarrow> resty_Request" where
  "R c = \<lparr>Header = Map.empty, QueryParams = Map.empty, Body = None\<rparr>"

definition SetHeader :: "string \<Rightarrow> string \<Rightarrow> resty_Request \<Rightarrow> resty_Request" where
  "SetHeader k v r = r\<lparr>Header := (Header r)(k \<mapsto> v)\<rparr>"

definition SetQueryParam :: "string \<Rightarrow> string \<Rightarrow> resty_Request \<Rightarrow> resty_Request" where
  "SetQueryParam k v r = r\<lparr>QueryParams := (QueryParams r)(k \<mapsto> v)\<rparr>"

definition SetBody :: "(string \<rightharpoonup> string) \<Rightarrow> resty_Request \<Rightarrow> resty_Request" where
  "SetBody m r = r\<lparr>Body := Some m\<rparr>"

definition SetResult :: "'a store \<Rightarrow> 'a \<Rightarrow> resty_Request \<Rightarrow> 'a resty_Request_with_Result" where
  "SetResult st target r =
     \<lparr>Header = Header r, QueryParams = QueryParams r, Body = Body r,
      Result = target, Decode = st\<rparr>"

definition IsSuccess :: "http_response \<Rightarrow> bool" where
  "IsSuccess resp = (199 < status resp \<and> status resp < 300)"

definition prepareRequest :: "resty_Client \<Rightarrow> string \<Rightarrow> string
      \<Rightarrow> 'a resty_Request_with_Result \<Rightarrow> http_request" where
  "prepareRequest c meth path r =
     \<lparr>req_method = meth, req_url = baseURL c @ path, req_headers = header c ++ Header r,
      req_query = QueryParams r, req_body = Body r\<rparr>"

definition decodeJSON :: "'a store \<Rightarrow> 'a \<Rightarrow> http_response \<Rightarrow> error + 'a" where
  "decodeJSON st target resp =
     (case payload resp of
        Some doc \<Rightarrow> Unmarshal st target (Some doc)
      | None \<Rightarrow> if blank resp then Inr target else Inl SyntaxError)"

definition Execute :: "network \<Rightarrow> resty_Client \<Rightarrow> string \<Rightarrow> string
      \<Rightarrow> 'a resty_Request_with_Result \<Rightarrow> http_request list
      \<Rightarrow> (error + 'a resty_Response) \<times> http_request list" where
  "Execute net c meth path r sent =
     (let req = prepareRequest c meth path r
      in (case net sent req of
            Inl err \<Rightarrow> Inl err
          | Inr resp \<Rightarrow>
              if IsSuccess resp \<and> status resp \<noteq> 204 then
                (case decodeJSON (Decode r) (Result r) resp of
                   Inl err \<Rightarrow> Inl err
                 | Inr x \<Rightarrow> Inr \<lparr>StatusCode = status resp, ResultOf = x\<rparr>)
              else Inr \<lparr>StatusCode = status resp, ResultOf = Result r\<rparr>,
          sent @ [req]))"

definition Post :: "network \<Rightarrow> resty_Client \<Rightarrow> 'a resty_Request_with_Result \<Rightarrow> string
      \<Rightarrow> http_request list \<Rightarrow> (error + 'a resty_Response) \<times> http_request list" where
  "Post net c r path sent = Execute net c ''POST'' path r sent"

definition Get :: "network \<Rightarrow> resty_Client \<Rightarrow> 'a resty_Request_with_Result \<Rightarrow> string
      \<Rightarrow> http_request list \<Rightarrow> (error + 'a resty_Response) \<times> http_request list" where
  "Get net c r path sent = Execute net c ''GET'' path r sent"

subsection \<open>One exchange, on the wire\<close>

text \<open>
  What the exchange of one executed request puts on the wire, after \<open>net/http\<close>, which
  is not part of the repository either.
  \<^item> The URL is parsed first by \<open>net/url\<close>. Its grammar is not written down: whether a
    URL parses is the parameter \<open>parses\<close>. A URL that does not parse is an error and
    nothing is sent.
  \<^item> The transport refuses a request with a header name that is no token or a header
    value holding a control byte other than the tab (CR and LF among them): that is an
    error and nothing is sent.
  \<^item> A header value is written without the blanks at its two ends (HTTP/1.1). Headers
    that the transport adds by itself are not written down.
  \<^item> The server answers a request on the wire with a response or the connection fails.
  \<^item> A response with status 301, 302, 303, 307 or 308 and a \<open>Location\<close> is followed by
    another request to that location: with the same method and the body of the first
    request after 307 and 308, with \<open>GET\<close> (or \<open>HEAD\<close>) and no body after the others.
    The headers of such a request (those of the first one, a \<open>Referer\<close> added,
    credentials dropped on the way to another site) are not written down. The default
    policy of \<open>net/http\<close> stops with an error when ten requests were made.
\<close>

datatype wire =
    First http_request
  | Next string string "(string \<rightharpoonup> string) option"

type_synonym server = "wire \<Rightarrow> error + http_response"

record hop =
  hop_method :: string
  hop_url :: string
  hop_body :: "(string \<rightharpoonup> string) option"

record exchange =
  sent_first :: "http_request option"
  sent_after :: "hop list"
  ended :: "error + http_response"

definition control_bytes :: string where
  "control_bytes =
     [CHR 0x00, CHR 0x01, CHR 0x02, CHR 0x03, CHR 0x04, CHR 0x05, CHR 0x06, CHR 0x07,
      CHR 0x08, CHR 0x0A, CHR 0x0B, CHR 0x0C, CHR 0x0D, CHR 0x0E, CHR 0x0F, CHR 0x10,
      CHR 0x11, CHR 0x12, CHR 0x13, CHR 0x14, CHR 0x15, CHR 0x16, CHR 0x17, CHR 0x18,
      CHR 0x19, CHR 0x1A, CHR 0x1B, CHR 0x1C, CHR 0x1D, CHR 0x1E, CHR 0x1F, CHR 0x7F]"

definition ValidHeaderFieldValue :: "string \<Rightarrow> bool" where
  "ValidHeaderFieldValue v = list_all (\<lambda>c. c \<notin> set control_bytes) v"

definition token_bytes :: string where
  "token_bytes =
     [CHR 0x21, CHR 0x23, CHR 0x24, CHR 0x25, CHR 0x26, CHR 0x27, CHR 0x2A, CHR 0x2B,
      CHR 0x2D, CHR 0x2E, CHR 0x5E, CHR 0x5F, CHR 0x60, CHR 0x7C, CHR 0x7E]
     @ ''0123456789abcdefghijklmnopqrstuvwxyzABCDEFGHIJKLMNOPQRSTUVWXYZ''"

definition ValidHeaderFieldName :: "string \<Rightarrow> bool" where
  "ValidHeaderFieldName k = (k \<noteq> [] \<and> list_all (\<lambda>c. c \<in> set token_bytes) k)"

definition headers_ok :: "(string \<rightharpoonup> string) \<Rightarrow> bool" where
  "headers_ok h =
     (\<forall>k v. h k = Some v \<longrightarrow> ValidHeaderFieldName k \<and> ValidHeaderFieldValue v)"

definition blank_byte :: "char \<Rightarrow> bool" where
  "blank_byte c = (c = CHR 0x20 \<or> c = CHR 0x09 \<or> c = CHR 0x0A \<or> c = CHR 0x0D)"

definition TrimString :: "string \<Rightarrow> string" where
  "TrimString s = rev (dropWhile blank_byte (rev (dropWhile blank_byte s)))"

definition written :: "http_request \<Rightarrow> http_request" where
  "written req = req\<lparr>req_headers := map_option TrimString \<circ> req_headers req\<rparr>"

definition redirectBehavior :: "string \<Rightarrow> http_response \<Rightarrow> (string \<times> bool) option" where
  "redirectBehavior meth resp =
     (if status resp = 301 \<or> status resp = 302 \<or> status resp = 303 then
        Some (if meth \<noteq> ''GET'' \<and> meth \<noteq> ''HEAD'' then ''GET'' else meth, False)
      else if status resp = 307 \<or> status resp = 308 then Some (meth, True)
      else None)"

text \<open>
  \<open>follow left srv body meth answer\<close>: what follows the answer to a request of method
  \<open>meth\<close> when \<open>left\<close> more requests may be made; \<open>body\<close> is the body of the first
  request.
\<close>

fun follow :: "nat \<Rightarrow> server \<Rightarrow> (string \<rightharpoonup> string) option \<Rightarrow> string
      \<Rightarrow> error + http_response \<Rightarrow> hop list \<times> (error + http_response)" where
  "follow left srv body meth (Inl e) = ([], Inl e)"
| "follow left srv body meth (Inr resp) =
     (case redirectBehavior meth resp of
        None \<Rightarrow> ([], Inr resp)
      | Some (meth', includeBody) \<Rightarrow>
          (case redirect_to resp of
             NoLocation \<Rightarrow> ([], Inr resp)
           | BadLocation \<Rightarrow> ([], Inl (RequestError ''failed to parse Location header''))
           | Target u \<Rightarrow>
               (case left of
                  0 \<Rightarrow> ([], Inl (RequestError ''stopped after 10 redirects''))
                | Suc k \<Rightarrow>
                    (case follow k srv body meth'
                            (srv (Next meth' u (if includeBody then body else None))) of
                       (hops, fin) \<Rightarrow>
                         (\<lparr>hop_method = meth', hop_url = u,
                           hop_body = if includeBody then body else None\<rparr> # hops, fin)))))"

definition Do :: "(string \<Rightarrow> bool) \<Rightarrow> server \<Rightarrow> http_request \<Rightarrow> exchange" where
  "Do parses srv req =
     (if \<not> parses (req_url req) then
        \<lparr>sent_first = None, sent_after = [], ended = Inl (RequestError ''invalid URL'')\<rparr>
      else if \<not> headers_ok (req_headers req) then
        \<lparr>sent_first = None, sent_after = [],
         ended = Inl (RequestError ''net/http: invalid header field'')\<rparr>
      else
        (case follow 9 srv (req_body req) (req_method req) (srv (First (written req))) of
           (hops, fin) \<Rightarrow> \<lparr>sent_first = Some (written req), sent_after = hops, ended = fin\<rparr>))"

text \<open>The network that a server makes, seen from the client.\<close>

definition via :: "(string \<Rightarrow> bool) \<Rightarrow> server \<Rightarrow> network" where
  "via parses srv sent req = ended (Do parses srv req)"

section \<open>The client\<close>

definition apiBaseURL :: string where "apiBaseURL = ''https://api.truecoach.co/api''"
definition userAgent :: string where "userAgent = ''okhttp/4.12.0''"
definition accept :: string where "accept = ''application/json''"
definition contentType :: string where "contentType = ''application/json; charset=utf-8''"
definition role :: string where "role = ''Client''"
definition acceptEncoding :: string where "acceptEncoding = ''gzip''"

record Client =
  httpClient :: resty_Client

definition NewClient :: Client where
  "NewClient =
     \<lparr>httpClient =
        Client_SetHeader ''Accept-Encoding'' acceptEncoding
          (Client_SetHeader ''Role'' role
            (Client_SetHeader ''Content-Type'' contentType
              (Client_SetHeader ''Accept'' accept
                (Client_SetHeader ''User-Agent'' userAgent
                  (SetBaseURL apiBaseURL resty_New)))))\<rparr>"

text \<open>
  Each operation takes the network and the requests sent so far, and gives its result
  with the requests sent after it.
\<close>

definition Login :: "network \<Rightarrow> Client \<Rightarrow> string \<Rightarrow> string \<Rightarrow> http_request list
      \<Rightarrow> (error + TokenResponse) \<times> http_request list" where
  "Login net c email password sent =
     (case Post net (httpClient c)
             (SetResult store_TokenResponse zero_TokenResponse
               (SetBody [''grant_type'' \<mapsto> ''password'', ''username'' \<mapsto> email,
                         ''password'' \<mapsto> password]
                 (R (httpClient c))))
             ''/oauth/token'' sent of
        (Inl err, sent') \<Rightarrow> (Inl err, sent')
      | (Inr res, sent') \<Rightarrow> (Inr (ResultOf res), sent'))"

definition GetUserProfile :: "network \<Rightarrow> Client \<Rightarrow> string \<Rightarrow> string \<Rightarrow> http_request list
      \<Rightarrow> (error + UserProfileResponse) \<times> http_request list" where
  "GetUserProfile net c authToken userID sent =
     (case Get net (httpClient c)
             (SetResult store_UserProfileResponse zero_UserProfileResponse
               (SetHeader ''Authorization'' (''Bearer '' @ authToken)
                 (R (httpClient c))))
             (''/users/'' @ userID) sent of
        (Inl err, sent') \<Rightarrow> (Inl err, sent')
      | (Inr res, sent') \<Rightarrow> (Inr (ResultOf res), sent'))"

definition GetHabitTrackers :: "network \<Rightarrow> Client \<Rightarrow> string \<Rightarrow> string \<Rightarrow> string
      \<Rightarrow> http_request list \<Rightarrow> (error + HabitTrackerResponse) \<times> http_request list" where
  "GetHabitTrackers net c authToken clientID date sent =
     (case Get net (httpClient c)
             (SetResult store_wrapper zero_wrapper
               (SetHeader ''Authorization'' (''Bearer '' @ authToken)
                 (SetQueryParam ''date'' date
                   (R (httpClient c)))))
             (''/clients/'' @ clientID @ ''/habit_trackers'') sent of
        (Inl err, sent') \<Rightarrow> (Inl err, sent')
      | (Inr res, sent') \<Rightarrow> (Inr (Response (ResultOf res)), sent'))"

section \<open>Notions used to state the properties\<close>

definition magnitude :: "float64 \<Rightarrow> real" where
  \<comment> \<open>the absolute value a float stands for\<close>
  "magnitude f =
     (if 0 \<le> expo f then real (mant f) * 2 ^ nat (expo f)
      else real (mant f) / 2 ^ nat (- expo f))"



definition digits_only :: "string \<Rightarrow> bool" where
  "digits_only ds = (ds \<noteq> [] \<and> list_all (\<lambda>c. c \<in> set ''0123456789'') ds)"

definition integer_text :: "string \<Rightarrow> bool" where
  \<comment> \<open>an optional minus sign and digits: no point, no exponent, nothing else\<close>
  "integer_text r =
     (case r of
        [] \<Rightarrow> False
      | c # ds \<Rightarrow> if c = CHR ''-'' then digits_only ds else digits_only r)"

definition wire_text :: "bool \<Rightarrow> nat \<Rightarrow> string" where
  \<comment> \<open>the text of the literal \<open>JInt neg n\<close>\<close>
  "wire_text neg n = (if neg then ''-'' else '''') @ decimal n"

text \<open>
  The member of an object that decides a field: the last one whose key selects it.
  \<open>wire_value\<close> is its value, \<open>None\<close> when there is no such member or its value is
  \<open>null\<close>.
\<close>

fun last_member :: "string list \<Rightarrow> string \<Rightarrow> (string \<times> json) list \<Rightarrow> json option" where
  "last_member names f [] = None"
| "last_member names f ((k, v) # ms) =
     (case last_member names f ms of
        Some w \<Rightarrow> Some w
      | None \<Rightarrow> if resolve names k = Some f then Some v else None)"

definition wire_value :: "string list \<Rightarrow> string \<Rightarrow> (string \<times> json) list \<Rightarrow> json option" where
  "wire_value names f ms =
     (case last_member names f ms of
        None \<Rightarrow> None
      | Some v \<Rightarrow> if v = JNull then None else Some v)"

text \<open>The members of an object whose key selects a given field.\<close>

definition selecting :: "string list \<Rightarrow> string \<Rightarrow> (string \<times> json) list \<Rightarrow> (string \<times> json) list" where
  "selecting names f ms = filter (\<lambda>m. resolve names (fst m) = Some f) ms"

definition not_null :: "string \<times> json \<Rightarrow> bool" where
  "not_null m = (snd m \<noteq> JNull)"

definition members :: "json \<Rightarrow> (string \<times> json) list" where
  "members v = (case v of JObject ms \<Rightarrow> ms | _ \<Rightarrow> [])"

definition as_float :: "json \<Rightarrow> float64 option" where
  "as_float v = (case v of JNumber n \<Rightarrow> ParseFloat n | _ \<Rightarrow> None)"

definition as_int :: "json \<Rightarrow> int option" where
  "as_int v = (case v of JNumber n \<Rightarrow> ParseInt n | _ \<Rightarrow> None)"

definition as_string :: "json \<Rightarrow> string option" where
  "as_string v = (case v of JString s \<Rightarrow> Some s | _ \<Rightarrow> None)"

definition as_ClientID :: "json \<Rightarrow> ClientID option" where
  "as_ClientID v = (case UnmarshalJSON (Some v) of Inl e \<Rightarrow> None | Inr c \<Rightarrow> Some c)"

text \<open>
  An optional field that held \<open>before\<close> reports, as \<open>x\<close>, the member \<open>m\<close> that decides
  it: without such a member it keeps what it held, a \<open>null\<close> makes it absent, and any
  other value makes it present with the value read from it.
\<close>

definition reports :: "'a option \<Rightarrow> 'a option \<Rightarrow> (json \<Rightarrow> 'a option) \<Rightarrow> json option \<Rightarrow> bool" where
  "reports before x conv m =
     (case m of
        None \<Rightarrow> x = before
      | Some v \<Rightarrow> if v = JNull then x = None else x \<noteq> None \<and> x = conv v)"

text \<open>
  A field without a pointer \<open>x\<close> holds the wire value \<open>w\<close>: its zero value when \<open>w\<close> is
  absent, and the value read from \<open>w\<close> otherwise.
\<close>

definition holds :: "'a \<Rightarrow> 'a \<Rightarrow> (json \<Rightarrow> 'a option) \<Rightarrow> json option \<Rightarrow> bool" where
  "holds x zero conv w = (case w of None \<Rightarrow> x = zero | Some v \<Rightarrow> conv v = Some x)"

text \<open>The number literals inside a value, and the Go type it has in an empty interface.\<close>

fun numbers :: "json \<Rightarrow> jnum list" where
  "numbers JNull = []"
| "numbers (JBool b) = []"
| "numbers (JNumber n) = [n]"
| "numbers (JString s) = []"
| "numbers (JArray vs) = concat (map numbers vs)"
| "numbers (JObject ms) = concat (map (\<lambda>m. numbers (snd m)) ms)"

definition fits_float64 :: "json \<Rightarrow> bool" where
  "fits_float64 v = list_all (\<lambda>n. ParseFloat n \<noteq> None) (numbers v)"

fun is_string_or_number :: "json \<Rightarrow> bool" where
  "is_string_or_number (JString s) = True"
| "is_string_or_number (JNumber n) = True"
| "is_string_or_number v = False"

fun go_type :: "json \<Rightarrow> string" where
  "go_type JNull = ''<nil>''"
| "go_type (JBool b) = ''bool''"
| "go_type (JNumber n) = ''float64''"
| "go_type (JString s) = ''string''"
| "go_type (JArray vs) = ''[]interface {}''"
| "go_type (JObject ms) = ''map[string]interface {}''"

text \<open>An entry with every key of the struct, for the examples.\<close>

definition full_entry :: "(string \<times> json) list" where
  "full_entry =
     [(''id'', JNumber (JInt False 1)),
      (''calories'', JNumber (JInt False 2100)),
      (''date'', JString ''2026-02-01''),
      (''protein'', JNumber (JDec False 1505 (- 1))),
      (''carbs'', JNumber (JInt False 250)),
      (''fat'', JNumber (JInt False 70)),
      (''weight'', JNumber (JDec False 705 (- 1))),
      (''sleep'', JNumber (JDec False 75 (- 1))),
      (''steps'', JNumber (JInt False 5000)),
      (''energy'', JNumber (JInt False 3)),
      (''hunger'', JNumber (JInt False 2)),
      (''stress'', JNumber (JInt False 0)),
      (''notes'', JString []),
      (''client_id'', JNumber (JInt False 77)),
      (''created_at'', JString ''2026-02-01T08:00:00Z''),
      (''updated_at'', JString ''2026-02-01T08:00:00Z'')]"

text \<open>
  Networks for the examples: one that answers every request alike with a document (or
  with bytes that are none), one that answers with an empty body, one that fails.
\<close>

definition answering :: "nat \<Rightarrow> json option \<Rightarrow> network" where
  "answering code doc sent req =
     Inr \<lparr>status = code, payload = doc, blank = False, redirect_to = NoLocation\<rparr>"

definition answering_empty :: "nat \<Rightarrow> network" where
  "answering_empty code sent req =
     Inr \<lparr>status = code, payload = None, blank = True, redirect_to = NoLocation\<rparr>"


text \<open>
  What an operation returns for the answer of the network to its one request: the error of
  the exchange; else, for a status from 200 to 299 other than 204, the outcome of decoding
  the body, which for an empty body is the zero value of the result type and no error;
  else the zero value of the result type.
\<close>

definition decoded :: "http_response \<Rightarrow> bool" where
  "decoded resp = (200 \<le> status resp \<and> status resp \<le> 299 \<and> status resp \<noteq> 204)"

definition outcome :: "'a store \<Rightarrow> 'a \<Rightarrow> error + http_response \<Rightarrow> error + 'a" where
  "outcome st zero answer =
     (case answer of
        Inl e \<Rightarrow> Inl e
      | Inr resp \<Rightarrow>
          if decoded resp then
            (case payload resp of
               Some doc \<Rightarrow> Unmarshal st zero (Some doc)
             | None \<Rightarrow> if blank resp then Inr zero else Inl SyntaxError)
          else Inr zero)"

text \<open>
  Servers for the examples: one that answers every request on the wire alike, one whose
  connection fails, and one that answers the requests to one URL with a redirect to
  another and every other request with an empty object. \<open>accepting\<close> lets every URL
  parse.
\<close>

definition accepting :: "string \<Rightarrow> bool" where
  "accepting u = True"

definition serving :: "nat \<Rightarrow> json option \<Rightarrow> server" where
  "serving code doc w =
     Inr \<lparr>status = code, payload = doc, blank = False, redirect_to = NoLocation\<rparr>"

definition failing :: "string \<Rightarrow> server" where
  "failing msg w = Inl (TransportError msg)"

definition wire_url :: "wire \<Rightarrow> string" where
  "wire_url w = (case w of First req \<Rightarrow> req_url req | Next meth u body \<Rightarrow> u)"

definition moved :: "nat \<Rightarrow> string \<Rightarrow> string \<Rightarrow> server" where
  "moved code old new w =
     (if wire_url w = old then
        Inr \<lparr>status = code, payload = None, blank = True, redirect_to = Target new\<rparr>
      else
        Inr \<lparr>status = 200, payload = Some (JObject []), blank = False,
             redirect_to = NoLocation\<rparr>)"

text \<open>
  The number of requests that an exchange put on the wire, whether the request was
  accepted for sending, and a value in the body of a request that followed a redirect.
\<close>

definition wire_requests :: "exchange \<Rightarrow> nat" where
  "wire_requests x = (case sent_first x of None \<Rightarrow> 0 | Some w \<Rightarrow> 1) + length (sent_after x)"

definition accepted :: "(string \<Rightarrow> bool) \<Rightarrow> http_request \<Rightarrow> bool" where
  "accepted parses req = (parses (req_url req) \<and> headers_ok (req_headers req))"

definition redirects :: "string \<Rightarrow> http_response \<Rightarrow> bool" where
  "redirects meth resp =
     (redirectBehavior meth resp \<noteq> None \<and> redirect_to resp \<noteq> NoLocation)"

definition body_value :: "hop \<Rightarrow> string \<Rightarrow> string option" where
  "body_value h k = (case hop_body h of None \<Rightarrow> None | Some m \<Rightarrow> m k)"

definition header_value :: "http_request option \<Rightarrow> string \<Rightarrow> string option" where
  "header_value w k = (case w of None \<Rightarrow> None | Some req \<Rightarrow> req_headers req k)"

text \<open>
  Whether a decoder meets an error depends on the JSON value only, not on what the target
  held.
\<close>

definition value_decides :: "'a store \<Rightarrow> bool" where
  "value_decides st =
     (\<forall>v z1 z2 x. st v z1 = Inr (x, None) \<longrightarrow> (\<exists>y. st v z2 = Inr (y, None)))"

section \<open>Evaluation of the number functions on numerals\<close>

lemma floorlog2_0: "floorlog 2 0 = 0"
  by (simp add: floorlog_def)

lemma floorlog2_Suc0: "floorlog 2 (Suc 0) = 1"
  by (simp add: floorlog_def)

lemma floorlog2_One: "floorlog 2 (numeral Num.One) = 1"
  by (simp add: floorlog_def)

lemma floorlog2_Bit0: "floorlog 2 (numeral (Num.Bit0 k)) = floorlog 2 (numeral k) + 1"
  by (subst compute_floorlog) simp

lemma floorlog2_Bit1: "floorlog 2 (numeral (Num.Bit1 k)) = floorlog 2 (numeral k) + 1"
  by (subst compute_floorlog) simp

lemma decimal_0: "decimal 0 = ''0''"
  by (subst decimal.simps) (simp add: digit_char_def)

lemma decimal_Suc0: "decimal (Suc 0) = ''1''"
  by (subst decimal.simps) (simp add: digit_char_def)

lemma decimal_numeral:
  "decimal (numeral k) =
     (if (numeral k :: nat) < 10 then [digit_char (numeral k)]
      else decimal (numeral k div 10) @ [digit_char (numeral k mod 10)])"
  by (subst decimal.simps) simp

lemmas number_eval =
  floorlog2_0 floorlog2_Suc0 floorlog2_One floorlog2_Bit0 floorlog2_Bit1
  decimal_0 decimal_Suc0 decimal_numeral digit_char_def
  round_float64_def ilog2_def pow2_le_def round_half_even_def
  FormatFloat_def float_to_integer_def Let_def

section \<open>Rounding\<close>

lemma round_half_even_mult: "0 < b \<Longrightarrow> round_half_even (a * b) b = a"
  by (simp add: round_half_even_def)

lemma round_half_even_one: "round_half_even a (Suc 0) = a"
  by (simp add: round_half_even_def)


text \<open>An integer below \<open>2^53\<close> is a float, and is printed as it was read.\<close>

lemma ilog2_integer:
  assumes "0 < n"
  shows "ilog2 n 1 = int (floorlog 2 n) - 1"
proof -
  have "floorlog 2 n \<noteq> 0" using assms by (simp add: floorlog_eq_zero_iff)
  then have L: "0 < floorlog 2 n" by simp
  have "2 ^ (floorlog 2 n - 1) \<le> n" using floorlog_bounds [of n 2] assms by simp
  moreover have "nat (int (floorlog 2 n) - 1) = floorlog 2 n - 1" by simp
  ultimately have "pow2_le (int (floorlog 2 n) - 1) n 1"
    using L by (simp add: pow2_le_def)
  moreover have "floorlog 2 (1::nat) = 1" by (simp add: floorlog_def)
  ultimately show ?thesis by (simp add: ilog2_def Let_def)
qed

lemma round_float64_small_integer:
  assumes "0 < n" "n < 2 ^ 53"
  shows "\<exists>m p. round_float64 s n 1 = Some (Float64 s m p) \<and> p \<le> 0 \<and> m = n * 2 ^ nat (- p)"
proof -
  define L where "L = floorlog 2 n"
  have "floorlog 2 n \<noteq> 0" using assms(1) by (simp add: floorlog_eq_zero_iff)
  then have L0: "0 < L" by (simp add: L_def)
  have L53: "L \<le> 53" using assms by (simp add: L_def floorlog_le_iff)
  have nL: "n < 2 ^ L" using floorlog_bounds [of n 2] assms by (simp add: L_def)
  define p where "p = int L - 53"
  have e: "ilog2 n 1 = int L - 1" using ilog2_integer [OF assms(1)] by (simp add: L_def)
  have p: "max (ilog2 n 1 - 52) (- 1074) = p" unfolding e p_def using L0 by simp
  have p0: "p \<le> 0" using L53 by (simp add: p_def)
  define k where "k = nat (- p)"
  have kL: "k + L = 53" using L53 by (simp add: k_def p_def)
  define m where "m = n * 2 ^ k"
  have "m < 2 ^ L * 2 ^ k" using nL by (simp add: m_def)
  also have "\<dots> = 2 ^ 53" using kL by (simp add: power_add [symmetric] add.commute)
  finally have m53: "m \<noteq> 2 ^ 53" by simp
  have m: "(if 0 \<le> p then round_half_even n (1 * 2 ^ nat p)
            else round_half_even (n * 2 ^ nat (- p)) 1) = m"
  proof (cases "p = 0")
    case True
    then show ?thesis by (simp add: round_half_even_one m_def k_def)
  next
    case False
    then show ?thesis using p0 by (simp add: round_half_even_one m_def k_def)
  qed
  have "round_float64 s n 1 = Some (Float64 s m p)"
    using assms(1) m53 p0 unfolding round_float64_def Let_def p m by simp
  then show ?thesis using p0 by (auto simp: m_def k_def)
qed

lemma float_to_integer_small_integer:
  assumes "0 < n" "n < 2 ^ 53"
  shows "\<exists>f. round_float64 s n 1 = Some f \<and> sign f = s \<and> float_to_integer f = n"
proof -
  obtain m p where f: "round_float64 s n 1 = Some (Float64 s m p)" and p: "p \<le> 0"
    and m: "m = n * 2 ^ nat (- p)"
    using round_float64_small_integer [OF assms] by blast
  have "float_to_integer (Float64 s m p) = n"
  proof (cases "p = 0")
    case True
    then show ?thesis using m by (simp add: float_to_integer_def)
  next
    case False
    then show ?thesis using p m by (simp add: float_to_integer_def round_half_even_mult)
  qed
  then show ?thesis using f by simp
qed

lemma FormatFloat_integer:
  assumes "n \<le> 2 ^ 53"
  shows "\<exists>f. ParseFloat (JInt s n) = Some f \<and> FormatFloat f = wire_text s n"
proof -
  consider "n = 0" | "0 < n" "n < 2 ^ 53" | "n = 2 ^ 53" using assms by force
  then show ?thesis
  proof cases
    case 1
    have "float_to_integer (Float64 s 0 (- 1074)) = 0"
      by (simp add: float_to_integer_def round_half_even_def)
    then show ?thesis using 1
      by (simp add: round_float64_def FormatFloat_def wire_text_def)
  next
    case 2
    then show ?thesis using float_to_integer_small_integer [of n s]
      by (auto simp: FormatFloat_def wire_text_def)
  next
    case 3
    have "round_float64 s (2 ^ 53) 1 = Some (Float64 s (2 ^ 52) 1)"
      by (simp add: number_eval)
    then show ?thesis using 3
      by (simp add: FormatFloat_def wire_text_def float_to_integer_def)
  qed
qed

text \<open>The text of a float has digits only, after its sign.\<close>

lemma digit_char_digit: "n < 10 \<Longrightarrow> digit_char n \<in> set ''0123456789''"
proof -
  assume "n < 10"
  then have "n < length ''0123456789''" by simp
  then have "''0123456789'' ! n \<in> set ''0123456789''" by (rule nth_mem)
  then show ?thesis by (simp only: digit_char_def)
qed

lemma decimal_digits:
  "decimal n \<noteq> [] \<and> list_all (\<lambda>c. c \<in> set ''0123456789'') (decimal n)"
proof (induction n rule: decimal.induct)
  case (1 n)
  show ?case
  proof (cases "n < 10")
    case True
    then show ?thesis using digit_char_digit [of n] by (subst (1 2) decimal.simps) simp
  next
    case False
    have "n mod 10 < 10" by simp
    then have "digit_char (n mod 10) \<in> set ''0123456789''" by (rule digit_char_digit)
    then show ?thesis using False 1 [OF False] by (subst (1 2) decimal.simps) simp
  qed
qed

lemma integer_text_FormatFloat: "integer_text (FormatFloat f)"
proof -
  obtain c ds where d: "decimal (float_to_integer f) = c # ds"
    using decimal_digits [of "float_to_integer f"] by (cases "decimal (float_to_integer f)") auto
  have all: "list_all (\<lambda>c. c \<in> set ''0123456789'') (c # ds)"
    using decimal_digits [of "float_to_integer f"] d by simp
  then have "c \<noteq> CHR ''-''" by auto
  then show ?thesis using all d
    by (simp add: integer_text_def FormatFloat_def digits_only_def)
qed


section \<open>The float of a number is one nearest to it\<close>















section \<open>Decoding objects: general facts\<close>

lemma first_error_None [simp]: "first_error e1 e2 = None \<longleftrightarrow> e1 = None \<and> e2 = None"
  by (simp add: first_error_def split: option.splits)

text \<open>
  A decode of an object that met no error. A field then holds what the last member
  selecting it gave, members that leave the field alone (\<open>skip\<close>) apart.
\<close>

lemma object_into_clean_field:
  assumes own: "map_of fs f = Some st"
    and upd: "\<And>v c c'. st v c = Inr (c', None) \<Longrightarrow>
        (if skip v then get c' = get c else hs v = Some (get c'))"
    and frame: "\<And>n st' v c c'. map_of fs n = Some st' \<Longrightarrow> n \<noteq> f \<Longrightarrow>
        st' v c = Inr (c', None) \<Longrightarrow> get c' = get c"
  shows "object_into fs ms c = Inr (c', None) \<Longrightarrow>
    (case last_member (map fst fs) f (filter (\<lambda>m. \<not> skip (snd m)) ms) of
       None \<Rightarrow> get c' = get c
     | Some v \<Rightarrow> hs v = Some (get c'))"
proof (induction ms arbitrary: c)
  case Nil
  then show ?case by simp
next
  case (Cons m ms)
  obtain k v where m: "m = (k, v)" by (cases m)
  show ?case
  proof (cases "resolve (map fst fs) k")
    case None
    then have rest: "object_into fs ms c = Inr (c', None)" using Cons.prems m by simp
    show ?thesis using Cons.IH [OF rest] m None by (auto split: option.splits)
  next
    case (Some n)
    show ?thesis
    proof (cases "map_of fs n")
      case None
      then have nf: "n \<noteq> f" using own by auto
      have rest: "object_into fs ms c = Inr (c', None)" using Cons.prems m Some None by simp
      show ?thesis using Cons.IH [OF rest] m Some nf by (auto split: option.splits)
    next
      case st': (Some st')
      from Cons.prems m Some st' obtain c1 where
        c1: "st' v c = Inr (c1, None)" and rest: "object_into fs ms c1 = Inr (c', None)"
        by (auto split: sum.splits prod.splits)
      note IH = Cons.IH [OF rest]
      show ?thesis
      proof (cases "n = f")
        case False
        then have "get c1 = get c" using frame [OF st' _ c1] by simp
        then show ?thesis using IH m Some False by (auto split: option.splits)
      next
        case True
        then have st: "st' = st" using st' own by simp
        show ?thesis
        proof (cases "skip v")
          case skip: True
          then have "get c1 = get c" using upd [of v c c1] c1 st by simp
          then show ?thesis using IH m skip by (auto split: option.splits)
        next
          case keep: False
          then have "hs v = Some (get c1)" using upd [of v c c1] c1 st by simp
          then show ?thesis using IH m Some True keep by (auto split: option.splits)
        qed
      qed
    qed
  qed
qed

text \<open>Leaving members out of an object that decodes gives an object that decodes.\<close>

lemma object_into_clean_filter:
  assumes indep: "\<And>n st v c1 c2 x. map_of fs n = Some st \<Longrightarrow> st v c1 = Inr (x, None) \<Longrightarrow>
        \<exists>y. st v c2 = Inr (y, None)"
  shows "object_into fs ms c = Inr (r, None) \<Longrightarrow>
    \<exists>r'. object_into fs (filter P ms) c' = Inr (r', None)"
proof (induction ms arbitrary: c c')
  case Nil
  then show ?case by simp
next
  case (Cons m ms)
  obtain k v where m: "m = (k, v)" by (cases m)
  show ?case
  proof (cases "resolve (map fst fs) k")
    case None
    then have rest: "object_into fs ms c = Inr (r, None)" using Cons.prems m by simp
    show ?thesis using Cons.IH [OF rest, of c'] m None by auto
  next
    case (Some n)
    show ?thesis
    proof (cases "map_of fs n")
      case None
      have rest: "object_into fs ms c = Inr (r, None)" using Cons.prems m Some None by simp
      show ?thesis using Cons.IH [OF rest, of c'] m Some None by auto
    next
      case st: (Some st)
      from Cons.prems m Some st obtain c1 where
        c1: "st v c = Inr (c1, None)" and rest: "object_into fs ms c1 = Inr (r, None)"
        by (auto split: sum.splits prod.splits)
      show ?thesis
      proof (cases "P m")
        case False
        then show ?thesis using Cons.IH [OF rest] by simp
      next
        case True
        obtain y where y: "st v c' = Inr (y, None)" using indep [OF st c1] by blast
        obtain r' where "object_into fs (filter P ms) y = Inr (r', None)"
          using Cons.IH [OF rest] by blast
        then show ?thesis using True m Some st y by simp
      qed
    qed
  qed
qed

section \<open>Fields of structs\<close>

lemma field_ptr_clean:
  assumes lens: "\<And>x c. get (upd (\<lambda>_. x) c) = x"
    and conv: "\<And>v z y. st v z = Inr (y, None) \<Longrightarrow> v \<noteq> JNull \<Longrightarrow> conv v = Some y"
    and run: "field get upd (store_ptr st zero) v c = Inr (c', None)"
  shows "(if v = JNull then Some None else map_option Some (conv v)) = Some (get c')"
proof (cases "v = JNull")
  case True
  then show ?thesis using run lens by (auto simp: field_def store_ptr_def)
next
  case False
  then obtain y where "st v (case get c of None \<Rightarrow> zero | Some x \<Rightarrow> x) = Inr (y, None)"
    and "c' = upd (\<lambda>_. Some y) c"
    using run by (cases v) (auto simp: field_def store_ptr_def split: sum.splits)
  then show ?thesis using False conv lens by auto
qed

lemma store_float64_clean:
  "store_float64 v z = Inr (y, None) \<Longrightarrow> v \<noteq> JNull \<Longrightarrow> as_float v = Some y"
  by (cases v) (auto simp: store_float64_def as_float_def split: option.splits)

lemma store_int_clean:
  "store_int v z = Inr (y, None) \<Longrightarrow> v \<noteq> JNull \<Longrightarrow> as_int v = Some y"
  by (cases v) (auto simp: store_int_def as_int_def split: option.splits)

lemma store_string_clean:
  "store_string v z = Inr (y, None) \<Longrightarrow> v \<noteq> JNull \<Longrightarrow> as_string v = Some y"
  by (cases v) (auto simp: store_string_def as_string_def)

text \<open>A pointer field of a struct reports the member that decides it.\<close>

lemma ptr_field_reports:
  assumes own: "map_of fs key = Some (field get upd (store_ptr st zero))"
    and lens: "\<And>x c. get (upd (\<lambda>_. x) c) = x"
    and conv: "\<And>v z y. st v z = Inr (y, None) \<Longrightarrow> v \<noteq> JNull \<Longrightarrow> conv v = Some y"
    and frame: "\<And>n st' v c c'. map_of fs n = Some st' \<Longrightarrow> n \<noteq> key \<Longrightarrow>
        st' v c = Inr (c', None) \<Longrightarrow> get c' = get c"
    and run: "object_into fs ms c = Inr (t, None)"
  shows "reports (get c) (get t) conv (last_member (map fst fs) key ms)"
proof -
  have "case last_member (map fst fs) key (filter (\<lambda>m. \<not> False) ms) of
       None \<Rightarrow> get t = get c
     | Some v \<Rightarrow> (if v = JNull then Some None else map_option Some (conv v)) = Some (get t)"
  proof (rule object_into_clean_field [OF own _ _ run])
    show "if False then get c' = get c
          else (if v = JNull then Some None else map_option Some (conv v)) = Some (get c')"
      if "field get upd (store_ptr st zero) v c = Inr (c', None)" for v c c'
      using field_ptr_clean [of get upd st conv, OF lens conv that] by simp
    show "get c' = get c"
      if "map_of fs n = Some st'" "n \<noteq> key" "st' v c = Inr (c', None)" for n st' v c c'
      using frame [OF that] .
  qed
  then show ?thesis
    by (cases "last_member (map fst fs) key ms")
      (auto simp: reports_def split: if_splits, metis+)
qed

lemma store_struct_clean:
  "store_struct ty fs v c = Inr (t, None) \<Longrightarrow> object_into fs (members v) c = Inr (t, None)"
  by (cases v) (auto simp: store_struct_def members_def)

section \<open>Tracking entries\<close>

lemma tracking_frame:
  assumes "map_of fields_HabitTrackerTracking n = Some st'" and "st' v c = Inr (c', e)"
  shows "n \<noteq> ''calories'' \<Longrightarrow> Calories c' = Calories c"
    and "n \<noteq> ''protein'' \<Longrightarrow> Protein c' = Protein c"
    and "n \<noteq> ''carbs'' \<Longrightarrow> Carbs c' = Carbs c"
    and "n \<noteq> ''fat'' \<Longrightarrow> Fat c' = Fat c"
    and "n \<noteq> ''weight'' \<Longrightarrow> TrackingWeight c' = TrackingWeight c"
    and "n \<noteq> ''sleep'' \<Longrightarrow> Sleep c' = Sleep c"
    and "n \<noteq> ''steps'' \<Longrightarrow> Steps c' = Steps c"
    and "n \<noteq> ''energy'' \<Longrightarrow> Energy c' = Energy c"
    and "n \<noteq> ''hunger'' \<Longrightarrow> Hunger c' = Hunger c"
    and "n \<noteq> ''stress'' \<Longrightarrow> Stress c' = Stress c"
    and "n \<noteq> ''notes'' \<Longrightarrow> Notes c' = Notes c"
  using assms
  by (auto simp: fields_HabitTrackerTracking_def field_def split: if_splits sum.splits)

lemma tracking_metrics:
  assumes "store_HabitTrackerTracking v c = Inr (t, None)"
  shows "reports (Calories c) (Calories t) as_float
           (last_member (map fst fields_HabitTrackerTracking) ''calories'' (members v))"
    and "reports (Protein c) (Protein t) as_float
           (last_member (map fst fields_HabitTrackerTracking) ''protein'' (members v))"
    and "reports (Carbs c) (Carbs t) as_float
           (last_member (map fst fields_HabitTrackerTracking) ''carbs'' (members v))"
    and "reports (Fat c) (Fat t) as_float
           (last_member (map fst fields_HabitTrackerTracking) ''fat'' (members v))"
    and "reports (TrackingWeight c) (TrackingWeight t) as_float
           (last_member (map fst fields_HabitTrackerTracking) ''weight'' (members v))"
    and "reports (Sleep c) (Sleep t) as_float
           (last_member (map fst fields_HabitTrackerTracking) ''sleep'' (members v))"
    and "reports (Steps c) (Steps t) as_int
           (last_member (map fst fields_HabitTrackerTracking) ''steps'' (members v))"
    and "reports (Energy c) (Energy t) as_float
           (last_member (map fst fields_HabitTrackerTracking) ''energy'' (members v))"
    and "reports (Hunger c) (Hunger t) as_float
           (last_member (map fst fields_HabitTrackerTracking) ''hunger'' (members v))"
    and "reports (Stress c) (Stress t) as_float
           (last_member (map fst fields_HabitTrackerTracking) ''stress'' (members v))"
    and "reports (Notes c) (Notes t) as_string
           (last_member (map fst fields_HabitTrackerTracking) ''notes'' (members v))"
proof -
  have run: "object_into fields_HabitTrackerTracking (members v) c = Inr (t, None)"
    using assms unfolding store_HabitTrackerTracking_def by (rule store_struct_clean)
  note fl = ptr_field_reports [where st = store_float64 and zero = zero_float64,
      OF _ _ store_float64_clean _ run]
  note it = ptr_field_reports [where st = store_int and zero = 0,
      OF _ _ store_int_clean _ run]
  note sr = ptr_field_reports [where st = store_string and zero = "[]",
      OF _ _ store_string_clean _ run]
  show "reports (Calories c) (Calories t) as_float
           (last_member (map fst fields_HabitTrackerTracking) ''calories'' (members v))"
    by (rule fl [where upd = Calories_update])
      (simp_all add: fields_HabitTrackerTracking_def [symmetric] tracking_frame,
        simp add: fields_HabitTrackerTracking_def)
  show "reports (Protein c) (Protein t) as_float
           (last_member (map fst fields_HabitTrackerTracking) ''protein'' (members v))"
    by (rule fl [where upd = Protein_update])
      (simp_all add: fields_HabitTrackerTracking_def [symmetric] tracking_frame,
        simp add: fields_HabitTrackerTracking_def)
  show "reports (Carbs c) (Carbs t) as_float
           (last_member (map fst fields_HabitTrackerTracking) ''carbs'' (members v))"
    by (rule fl [where upd = Carbs_update])
      (simp_all add: fields_HabitTrackerTracking_def [symmetric] tracking_frame,
        simp add: fields_HabitTrackerTracking_def)
  show "reports (Fat c) (Fat t) as_float
           (last_member (map fst fields_HabitTrackerTracking) ''fat'' (members v))"
    by (rule fl [where upd = Fat_update])
      (simp_all add: fields_HabitTrackerTracking_def [symmetric] tracking_frame,
        simp add: fields_HabitTrackerTracking_def)
  show "reports (TrackingWeight c) (TrackingWeight t) as_float
           (last_member (map fst fields_HabitTrackerTracking) ''weight'' (members v))"
    by (rule fl [where upd = TrackingWeight_update])
      (simp_all add: fields_HabitTrackerTracking_def [symmetric] tracking_frame,
        simp add: fields_HabitTrackerTracking_def)
  show "reports (Sleep c) (Sleep t) as_float
           (last_member (map fst fields_HabitTrackerTracking) ''sleep'' (members v))"
    by (rule fl [where upd = Sleep_update])
      (simp_all add: fields_HabitTrackerTracking_def [symmetric] tracking_frame,
        simp add: fields_HabitTrackerTracking_def)
  show "reports (Steps c) (Steps t) as_int
           (last_member (map fst fields_HabitTrackerTracking) ''steps'' (members v))"
    by (rule it [where upd = Steps_update])
      (simp_all add: fields_HabitTrackerTracking_def [symmetric] tracking_frame,
        simp add: fields_HabitTrackerTracking_def)
  show "reports (Energy c) (Energy t) as_float
           (last_member (map fst fields_HabitTrackerTracking) ''energy'' (members v))"
    by (rule fl [where upd = Energy_update])
      (simp_all add: fields_HabitTrackerTracking_def [symmetric] tracking_frame,
        simp add: fields_HabitTrackerTracking_def)
  show "reports (Hunger c) (Hunger t) as_float
           (last_member (map fst fields_HabitTrackerTracking) ''hunger'' (members v))"
    by (rule fl [where upd = Hunger_update])
      (simp_all add: fields_HabitTrackerTracking_def [symmetric] tracking_frame,
        simp add: fields_HabitTrackerTracking_def)
  show "reports (Stress c) (Stress t) as_float
           (last_member (map fst fields_HabitTrackerTracking) ''stress'' (members v))"
    by (rule fl [where upd = Stress_update])
      (simp_all add: fields_HabitTrackerTracking_def [symmetric] tracking_frame,
        simp add: fields_HabitTrackerTracking_def)
  show "reports (Notes c) (Notes t) as_string
           (last_member (map fst fields_HabitTrackerTracking) ''notes'' (members v))"
    by (rule sr [where upd = Notes_update])
      (simp_all add: fields_HabitTrackerTracking_def [symmetric] tracking_frame,
        simp add: fields_HabitTrackerTracking_def)
qed

section \<open>Errors depend on the value only\<close>

lemma value_decidesI:
  assumes "\<And>v z1 z2 x. st v z1 = Inr (x, None) \<Longrightarrow> \<exists>y. st v z2 = Inr (y, None)"
  shows "value_decides st"
  using assms unfolding value_decides_def by blast

lemma value_decidesD:
  assumes "value_decides st" and "st v z1 = Inr (x, None)"
  shows "\<exists>y. st v z2 = Inr (y, None)"
  using assms unfolding value_decides_def by blast

lemma value_decides_int: "value_decides store_int"
  by (rule value_decidesI) (auto simp: store_int_def split: json.splits option.splits)

lemma value_decides_float64: "value_decides store_float64"
  by (rule value_decidesI) (auto simp: store_float64_def split: json.splits option.splits)

lemma value_decides_string: "value_decides store_string"
  by (rule value_decidesI) (auto simp: store_string_def split: json.splits)

lemma store_ptr_not_null:
  "v \<noteq> JNull \<Longrightarrow> store_ptr st zero v z =
     (case st v (case z of None \<Rightarrow> zero | Some x \<Rightarrow> x) of
        Inl e \<Rightarrow> Inl e
      | Inr (x, te) \<Rightarrow> Inr (Some x, te))"
  by (cases v) (simp_all add: store_ptr_def)

lemma value_decides_ptr:
  assumes "value_decides st"
  shows "value_decides (store_ptr st zero)"
proof (rule value_decidesI)
  fix v z1 z2 x
  assume run: "store_ptr st zero v z1 = Inr (x, None)"
  show "\<exists>y. store_ptr st zero v z2 = Inr (y, None)"
  proof (cases "v = JNull")
    case True
    then show ?thesis by (simp add: store_ptr_def)
  next
    case False
    then obtain y where "st v (case z1 of None \<Rightarrow> zero | Some x \<Rightarrow> x) = Inr (y, None)"
      using run by (auto simp: store_ptr_not_null split: sum.splits)
    then obtain y' where "st v (case z2 of None \<Rightarrow> zero | Some x \<Rightarrow> x) = Inr (y', None)"
      using value_decidesD [OF assms] by blast
    then show ?thesis using False by (simp add: store_ptr_not_null)
  qed
qed

lemma value_decides_field:
  assumes "value_decides st"
  shows "value_decides (field g u st)"
proof (rule value_decidesI)
  fix v z1 z2 x
  assume "field g u st v z1 = Inr (x, None)"
  then obtain y where "st v (g z1) = Inr (y, None)"
    by (auto simp: field_def split: sum.splits)
  then obtain y' where "st v (g z2) = Inr (y', None)"
    using value_decidesD [OF assms] by blast
  then show "\<exists>y. field g u st v z2 = Inr (y, None)" by (simp add: field_def)
qed

lemmas value_decides_intros =
  value_decides_int value_decides_float64 value_decides_string value_decides_ptr
  value_decides_field

lemma tracking_value_decides:
  "map_of fields_HabitTrackerTracking n = Some st \<Longrightarrow> value_decides st"
  by (auto simp: fields_HabitTrackerTracking_def split: if_splits intro!: value_decides_intros)

lemma tracking_subset:
  assumes "store_HabitTrackerTracking (JObject ms) c = Inr (t, None)"
  shows "\<exists>t'. store_HabitTrackerTracking (JObject (filter P ms)) c' = Inr (t', None)"
proof -
  have "object_into fields_HabitTrackerTracking ms c = Inr (t, None)"
    using assms by (simp add: store_HabitTrackerTracking_def store_struct_def)
  then have "\<exists>t'. object_into fields_HabitTrackerTracking (filter P ms) c' = Inr (t', None)"
    by (rule object_into_clean_filter [rotated])
      (rule value_decidesD [OF tracking_value_decides])
  then show ?thesis by (simp add: store_HabitTrackerTracking_def store_struct_def)
qed

lemmas decode_eval =
  store_struct_def resolve_def field_def store_ptr_def store_int_def store_float64_def
  store_string_def store_bool_def store_ClientID_def first_error_def mismatch_def

lemma tracking_example_absent:
  "store_HabitTrackerTracking (JObject [(''steps'', JNull)]) zero_HabitTrackerTracking
     = Inr (zero_HabitTrackerTracking, None)"
  by (simp add: store_HabitTrackerTracking_def fields_HabitTrackerTracking_def decode_eval
      zero_HabitTrackerTracking_def)

lemma ParseFloat_70_5:
  "ParseFloat (JDec False 705 (- 1)) = Some (Float64 False 4960996464525312 (- 46))"
  by (simp add: number_eval)

lemma magnitude_70_5: "magnitude (Float64 False 4960996464525312 (- 46)) = 705 / 10"
  by (simp add: magnitude_def)

lemma tracking_example_present:
  "store_HabitTrackerTracking
     (JObject [(''steps'', JNumber (JInt False 5000)), (''weight'', JNumber (JDec False 705 (- 1)))])
     zero_HabitTrackerTracking
   = Inr (zero_HabitTrackerTracking
       \<lparr>TrackingWeight := Some (Float64 False 4960996464525312 (- 46)), Steps := Some 5000\<rparr>, None)"
  by (simp add: store_HabitTrackerTracking_def fields_HabitTrackerTracking_def decode_eval
      zero_HabitTrackerTracking_def ParseFloat_70_5 del: ParseFloat.simps)

section \<open>The flexible identifier: properties\<close>

lemma UnmarshalJSON_number:
  "UnmarshalJSON (Some (JNumber n)) =
     (case ParseFloat n of
        None \<Rightarrow> Inl (UnmarshalTypeError ''number'' ''float64'')
      | Some f \<Rightarrow> Inr (FormatFloat f))"
  by (simp add: UnmarshalJSON_def Unmarshal_def store_interface_def convertNumber_def
      split: option.splits)

lemma UnmarshalJSON_string: "UnmarshalJSON (Some (JString s)) = Inr s"
  by (simp add: UnmarshalJSON_def Unmarshal_def store_interface_def)

lemma UnmarshalJSON_12_7: "UnmarshalJSON (Some (JNumber (JDec False 127 (- 1)))) = Inr ''13''"
  by (simp add: UnmarshalJSON_number number_eval)

text \<open>
  Claim C1. The number \<open>12345\<close> and the string \<open>"12345"\<close> both decode to the identifier
  \<open>12345\<close>. In general a string decodes to itself, an integer literal of magnitude up to
  \<open>2^53\<close> decodes to the very text of the literal, and whatever a number decodes to is an
  optional minus sign followed by digits: never a point, a fraction or an exponent.
\<close>

theorem ClientID_number_and_string_agree:
  "UnmarshalJSON (Some (JNumber (JInt False 12345))) = Inr ''12345''
   \<and> UnmarshalJSON (Some (JString ''12345'')) = Inr ''12345''
   \<and> (\<forall>s. UnmarshalJSON (Some (JString s)) = Inr s)
   \<and> (\<forall>neg n. n \<le> 2 ^ 53 \<longrightarrow>
         UnmarshalJSON (Some (JNumber (JInt neg n))) = Inr (wire_text neg n))
   \<and> (\<forall>n r. UnmarshalJSON (Some (JNumber n)) = Inr r \<longrightarrow> integer_text r)"
proof (intro conjI allI impI)
  show "UnmarshalJSON (Some (JNumber (JInt False 12345))) = Inr ''12345''"
    by (simp add: UnmarshalJSON_number number_eval)
  show "UnmarshalJSON (Some (JString ''12345'')) = Inr ''12345''"
    by (rule UnmarshalJSON_string)
  show "UnmarshalJSON (Some (JString s)) = Inr s" for s
    by (rule UnmarshalJSON_string)
  show "UnmarshalJSON (Some (JNumber (JInt neg n))) = Inr (wire_text neg n)"
    if "n \<le> 2 ^ 53" for neg n
    using FormatFloat_integer [OF that, of neg] by (auto simp: UnmarshalJSON_number)
  show "integer_text r" if "UnmarshalJSON (Some (JNumber n)) = Inr r" for n r
    using that integer_text_FormatFloat
    by (auto simp: UnmarshalJSON_number split: option.splits)
qed

theorem ClientID_number_and_string_agree_witness:
  "(77::nat) \<le> 2 ^ 53
   \<and> UnmarshalJSON (Some (JNumber (JInt True 77))) = Inr ''-77''
   \<and> UnmarshalJSON (Some (JNumber (JDec False 127 (- 1)))) = Inr ''13''
   \<and> integer_text ''13''"
proof -
  have le: "(77::nat) \<le> 2 ^ 53" by simp
  have w77: "wire_text True 77 = ''-77''" by (simp add: wire_text_def number_eval)
  from ClientID_number_and_string_agree
  have small: "\<And>neg n. n \<le> 2 ^ 53 \<Longrightarrow>
      UnmarshalJSON (Some (JNumber (JInt neg n))) = Inr (wire_text neg n)"
    and shape: "\<And>n r. UnmarshalJSON (Some (JNumber n)) = Inr r \<Longrightarrow> integer_text r"
    by blast+
  show ?thesis using le small [OF le, of True] shape [OF UnmarshalJSON_12_7] UnmarshalJSON_12_7
    by (simp add: w77)
qed



section \<open>Values in an empty interface\<close>

lemma first_error_same:
  "first_error (if a then None else Some e) (if b then None else Some e)
     = (if a \<and> b then None else Some e)"
  by (simp add: first_error_def)

lemma interface_errors:
  "snd (valueInterface v) =
     (if list_all (\<lambda>n. ParseFloat n \<noteq> None) (numbers v) then None
      else Some (UnmarshalTypeError ''number'' ''float64''))"
  "snd (arrayInterface vs) =
     (if list_all (\<lambda>n. ParseFloat n \<noteq> None) (concat (map numbers vs)) then None
      else Some (UnmarshalTypeError ''number'' ''float64''))"
  "snd (objectInterface ms m) =
     (if list_all (\<lambda>n. ParseFloat n \<noteq> None) (concat (map (\<lambda>m. numbers (snd m)) ms)) then None
      else Some (UnmarshalTypeError ''number'' ''float64''))"
proof (induction v and vs and ms m rule: valueInterface_arrayInterface_objectInterface.induct)
  case (4 n)
  then show ?case by (simp add: convertNumber_def split: option.splits)
next
  case (5 vs)
  obtain xs e where "arrayInterface vs = (xs, e)" by (cases "arrayInterface vs")
  then show ?case using 5 by simp
next
  case (6 ms)
  obtain m e where "objectInterface ms [] = (m, e)" by (cases "objectInterface ms []")
  then show ?case using 6 by simp
next
  case (8 v vs)
  obtain x e1 where v: "valueInterface v = (x, e1)" by (cases "valueInterface v")
  obtain xs e2 where vs: "arrayInterface vs = (xs, e2)" by (cases "arrayInterface vs")
  show ?case using 8 v vs by (simp add: first_error_same)
next
  case (10 k v ms m)
  obtain x e1 where v: "valueInterface v = (x, e1)" by (cases "valueInterface v")
  obtain m' e2 where ms: "objectInterface ms (AList.update k x m) = (m', e2)"
    by (cases "objectInterface ms (AList.update k x m)")
  show ?case using 10(1) 10(2) [OF v [symmetric]] v ms by (simp add: first_error_same)
qed simp_all

lemma interface_type:
  "\<not> is_string_or_number v \<Longrightarrow> type_name (fst (valueInterface v)) = go_type v
     \<and> (\<forall>s. fst (valueInterface v) \<noteq> IString s) \<and> (\<forall>f. fst (valueInterface v) \<noteq> IFloat64 f)"
  by (cases v) (auto split: prod.splits)

lemma UnmarshalJSON_other:
  assumes "\<not> is_string_or_number v"
  shows "UnmarshalJSON (Some v) =
     Inl (if fits_float64 v
          then ErrorString (''user_id: expected string or number, got '' @ go_type v)
          else UnmarshalTypeError ''number'' ''float64'')"
proof -
  obtain x e where xe: "valueInterface v = (x, e)" by (cases "valueInterface v")
  have e: "e = (if fits_float64 v then None else Some (UnmarshalTypeError ''number'' ''float64''))"
    using interface_errors(1) [of v] xe by (simp add: fits_float64_def)
  have x: "type_name x = go_type v" "\<And>s. x \<noteq> IString s" "\<And>f. x \<noteq> IFloat64 f"
    using interface_type [OF assms] xe by simp_all
  show ?thesis
  proof (cases "fits_float64 v")
    case True
    then show ?thesis using xe e x
      by (cases x) (auto simp: UnmarshalJSON_def Unmarshal_def store_interface_def)
  next
    case False
    then show ?thesis using xe e
      by (simp add: UnmarshalJSON_def Unmarshal_def store_interface_def)
  qed
qed

text \<open>An integer from \<open>2^1024\<close> on is out of the range of a float.\<close>

lemma round_float64_overflow:
  assumes "2 ^ 1024 \<le> a"
  shows "round_float64 s a 1 = None"
proof -
  have a: "0 < a" using assms by (simp add: order.strict_trans2 [of 0 "2 ^ 1024"])
  have "1025 \<le> floorlog 2 a" using assms by (intro floorlog_geI) simp_all
  then have e: "1024 \<le> ilog2 a 1" using ilog2_integer [OF a] by simp
  define p where "p = max (ilog2 a 1 - 52) (- 1074)"
  have p: "971 < p" using e by (simp add: p_def)
  show ?thesis using a p unfolding round_float64_def Let_def p_def [symmetric]
    by (simp split: prod.splits if_splits)
qed

lemma above_float64_range: "(2::nat) ^ 1024 \<le> 2 * 10 ^ 308"
  by simp

lemma UnmarshalJSON_array_out_of_range:
  "UnmarshalJSON (Some (JArray [JNumber (JDec False 2 308)]))
     = Inl (UnmarshalTypeError ''number'' ''float64'')"
  using round_float64_overflow [OF above_float64_range]
  by (simp add: UnmarshalJSON_def Unmarshal_def store_interface_def convertNumber_def
      first_error_def del: power_numeral)

text \<open>
  Claim C3, as stated, fails: an array holding a number beyond the range of a float is
  rejected by \<open>json.Unmarshal\<close> itself, and the error passed on is the type error of that
  number, which does not name the array.
\<close>

theorem ClientID_array_error_is_of_number:
  "\<not> is_string_or_number (JArray [JNumber (JDec False 2 308)])
   \<and> UnmarshalJSON (Some (JArray [JNumber (JDec False 2 308)]))
       = Inl (UnmarshalTypeError ''number'' ''float64'')
   \<and> UnmarshalJSON (Some (JArray [JNumber (JDec False 2 308)]))
       \<noteq> Inl (ErrorString (''user_id: expected string or number, got ''
             @ go_type (JArray [JNumber (JDec False 2 308)])))"
  by (simp add: UnmarshalJSON_array_out_of_range)

text \<open>
  Claim C3, amended. A value that is neither a string nor a number never yields an
  identifier. When every number inside it is within the range of a float, the error
  reads \<open>user_id: expected string or number, got T\<close> with \<open>T\<close> the Go type of the value:
  \<open>bool\<close>, \<open>[]interface {}\<close>, \<open>map[string]interface {}\<close>, or \<open><nil>\<close> for \<open>null\<close>.
  Otherwise the error is the type error of \<open>encoding/json\<close> for a number out of range.
\<close>

theorem ClientID_rejects_other_values:
  "\<not> is_string_or_number v \<Longrightarrow>
   UnmarshalJSON (Some v) =
     Inl (if fits_float64 v
          then ErrorString (''user_id: expected string or number, got '' @ go_type v)
          else UnmarshalTypeError ''number'' ''float64'')"
  by (rule UnmarshalJSON_other)

theorem ClientID_rejects_other_values_witness:
  "\<not> is_string_or_number (JBool True)
   \<and> UnmarshalJSON (Some (JBool True))
       = Inl (ErrorString ''user_id: expected string or number, got bool'')
   \<and> \<not> is_string_or_number JNull
   \<and> UnmarshalJSON (Some JNull)
       = Inl (ErrorString ''user_id: expected string or number, got <nil>'')
   \<and> \<not> is_string_or_number (JArray [JNumber (JInt False 1)])
   \<and> UnmarshalJSON (Some (JArray [JNumber (JInt False 1)]))
       = Inl (ErrorString ''user_id: expected string or number, got []interface {}'')
   \<and> \<not> is_string_or_number (JObject [(''id'', JString ''7'')])
   \<and> UnmarshalJSON (Some (JObject [(''id'', JString ''7'')]))
       = Inl (ErrorString ''user_id: expected string or number, got map[string]interface {}'')"
proof -
  have one: "ParseFloat (JInt False 1) \<noteq> None" by (simp add: number_eval)
  show ?thesis
    using ClientID_rejects_other_values [of "JBool True"]
      ClientID_rejects_other_values [of JNull]
      ClientID_rejects_other_values [of "JArray [JNumber (JInt False 1)]"]
      ClientID_rejects_other_values [of "JObject [(''id'', JString ''7'')]"] one
    by (simp add: fits_float64_def del: ParseFloat.simps)
qed

section \<open>Fields without a pointer\<close>

lemma not_null_filter: "filter (\<lambda>m. \<not> snd m = JNull) ms = filter not_null ms"
  by (simp add: not_null_def [abs_def])

text \<open>A scalar field, which \<open>null\<close> leaves alone, holds the last value that is not \<open>null\<close>.\<close>

lemma scalar_field_holds:
  assumes own: "map_of fs key = Some (field get upd st)"
    and lens: "\<And>x c. get (upd (\<lambda>_. x) c) = x"
    and conv: "\<And>v z y. st v z = Inr (y, None) \<Longrightarrow>
        (if v = JNull then y = z else conv v = Some y)"
    and frame: "\<And>n st' v c c'. map_of fs n = Some st' \<Longrightarrow> n \<noteq> key \<Longrightarrow>
        st' v c = Inr (c', None) \<Longrightarrow> get c' = get c"
    and run: "object_into fs ms c = Inr (t, None)"
  shows "holds (get t) (get c) conv (last_member (map fst fs) key (filter not_null ms))"
proof -
  have "case last_member (map fst fs) key (filter (\<lambda>m. \<not> snd m = JNull) ms) of
       None \<Rightarrow> get t = get c
     | Some v \<Rightarrow> conv v = Some (get t)"
  proof (rule object_into_clean_field [OF own _ _ run])
    show "if v = JNull then get c' = get c else conv v = Some (get c')"
      if "field get upd st v c = Inr (c', None)" for v c c'
    proof -
      from that obtain y where y: "st v (get c) = Inr (y, None)" and c': "c' = upd (\<lambda>_. y) c"
        by (auto simp: field_def split: sum.splits)
      show ?thesis using conv [OF y] lens c' by (simp split: if_splits)
    qed
    show "get c' = get c"
      if "map_of fs n = Some st'" "n \<noteq> key" "st' v c = Inr (c', None)" for n st' v c c'
      using frame [OF that] .
  qed
  then show ?thesis by (simp add: holds_def not_null_filter)
qed

text \<open>A field with an \<open>UnmarshalJSON\<close> method holds what the last value gave.\<close>

lemma ClientID_field_holds:
  assumes own: "map_of fs key = Some (field get upd store_ClientID)"
    and lens: "\<And>x c. get (upd (\<lambda>_. x) c) = x"
    and frame: "\<And>n st' v c c'. map_of fs n = Some st' \<Longrightarrow> n \<noteq> key \<Longrightarrow>
        st' v c = Inr (c', None) \<Longrightarrow> get c' = get c"
    and run: "object_into fs ms c = Inr (t, None)"
  shows "holds (get t) (get c) as_ClientID (last_member (map fst fs) key ms)"
proof -
  have "case last_member (map fst fs) key (filter (\<lambda>m. \<not> False) ms) of
       None \<Rightarrow> get t = get c
     | Some v \<Rightarrow> as_ClientID v = Some (get t)"
  proof (rule object_into_clean_field [OF own _ _ run])
    show "if False then get c' = get c else as_ClientID v = Some (get c')"
      if "field get upd store_ClientID v c = Inr (c', None)" for v c c'
      using that lens
      by (auto simp: field_def store_ClientID_def as_ClientID_def split: sum.splits)
    show "get c' = get c"
      if "map_of fs n = Some st'" "n \<noteq> key" "st' v c = Inr (c', None)" for n st' v c c'
      using frame [OF that] .
  qed
  then show ?thesis by (simp add: holds_def)
qed


lemma store_string_value:
  "store_string v z = Inr (y, None) \<Longrightarrow> (if v = JNull then y = z else as_string v = Some y)"
  by (cases v) (auto simp: store_string_def as_string_def)

section \<open>The user profile\<close>









section \<open>One request, one outcome\<close>

lemma decoded_iff: "decoded resp \<longleftrightarrow> IsSuccess resp \<and> status resp \<noteq> 204"
  by (auto simp: decoded_def IsSuccess_def)

lemma Execute_sent:
  "snd (Execute net c meth path r sent) = sent @ [prepareRequest c meth path r]"
  by (simp add: Execute_def Let_def)

lemma Execute_result:
  "map_sum id ResultOf (fst (Execute net c meth path r sent))
     = outcome (Decode r) (Result r) (net sent (prepareRequest c meth path r))"
  by (simp add: Execute_def Let_def outcome_def decoded_iff decodeJSON_def
      split: sum.splits option.splits)

lemma fst_case_result:
  "fst (case p of (Inl err, s) \<Rightarrow> (Inl err, s) | (Inr res, s) \<Rightarrow> (Inr (f res), s))
     = map_sum id f (fst p)"
  by (cases p) (simp split: sum.splits)

lemma snd_case_result:
  "snd (case p of (Inl err, s) \<Rightarrow> (Inl err, s) | (Inr res, s) \<Rightarrow> (Inr (f res), s)) = snd p"
  by (cases p) (simp split: sum.splits)

lemma Login_sent:
  "snd (Login net c email password sent) =
     sent @ [\<lparr>req_method = ''POST'', req_url = baseURL (httpClient c) @ ''/oauth/token'',
              req_headers = header (httpClient c), req_query = Map.empty,
              req_body = Some [''grant_type'' \<mapsto> ''password'', ''username'' \<mapsto> email,
                               ''password'' \<mapsto> password]\<rparr>]"
  by (simp add: Login_def snd_case_result Post_def Execute_sent prepareRequest_def
      SetResult_def SetBody_def R_def)

lemma GetUserProfile_sent:
  "snd (GetUserProfile net c authToken userID sent) =
     sent @ [\<lparr>req_method = ''GET'', req_url = baseURL (httpClient c) @ ''/users/'' @ userID,
              req_headers = (header (httpClient c))(''Authorization'' \<mapsto> ''Bearer '' @ authToken),
              req_query = Map.empty, req_body = None\<rparr>]"
  by (simp add: GetUserProfile_def snd_case_result Get_def Execute_sent prepareRequest_def
      SetResult_def SetHeader_def R_def)

lemma GetHabitTrackers_sent:
  "snd (GetHabitTrackers net c authToken clientID date sent) =
     sent @ [\<lparr>req_method = ''GET'',
              req_url = baseURL (httpClient c) @ ''/clients/'' @ clientID @ ''/habit_trackers'',
              req_headers = (header (httpClient c))(''Authorization'' \<mapsto> ''Bearer '' @ authToken),
              req_query = [''date'' \<mapsto> date], req_body = None\<rparr>]"
  by (simp add: GetHabitTrackers_def snd_case_result Get_def Execute_sent prepareRequest_def
      SetResult_def SetHeader_def SetQueryParam_def R_def)

lemma map_sum_comp_id: "map_sum id f (map_sum id g x) = map_sum id (\<lambda>y. f (g y)) x"
  by (cases x) simp_all

lemma Login_result:
  "fst (Login net c email password sent) =
     outcome store_TokenResponse zero_TokenResponse
       (net sent (last (snd (Login net c email password sent))))"
proof -
  have "fst (Login net c email password sent)
      = map_sum id ResultOf (fst (Post net (httpClient c)
          (SetResult store_TokenResponse zero_TokenResponse
            (SetBody [''grant_type'' \<mapsto> ''password'', ''username'' \<mapsto> email,
                      ''password'' \<mapsto> password] (R (httpClient c))))
          ''/oauth/token'' sent))"
    by (simp only: Login_def fst_case_result)
  also have "\<dots> = outcome store_TokenResponse zero_TokenResponse
       (net sent (last (snd (Login net c email password sent))))"
    by (simp add: Post_def Execute_result Login_sent prepareRequest_def SetResult_def
        SetBody_def R_def)
  finally show ?thesis .
qed

lemma GetUserProfile_result:
  "fst (GetUserProfile net c authToken userID sent) =
     outcome store_UserProfileResponse zero_UserProfileResponse
       (net sent (last (snd (GetUserProfile net c authToken userID sent))))"
proof -
  have "fst (GetUserProfile net c authToken userID sent)
      = map_sum id ResultOf (fst (Get net (httpClient c)
          (SetResult store_UserProfileResponse zero_UserProfileResponse
            (SetHeader ''Authorization'' (''Bearer '' @ authToken) (R (httpClient c))))
          (''/users/'' @ userID) sent))"
    by (simp only: GetUserProfile_def fst_case_result)
  also have "\<dots> = outcome store_UserProfileResponse zero_UserProfileResponse
       (net sent (last (snd (GetUserProfile net c authToken userID sent))))"
    by (simp add: Get_def Execute_result GetUserProfile_sent prepareRequest_def SetResult_def
        SetHeader_def R_def)
  finally show ?thesis .
qed

lemma GetHabitTrackers_result:
  "fst (GetHabitTrackers net c authToken clientID date sent) =
     map_sum id Response
       (outcome store_wrapper zero_wrapper
          (net sent (last (snd (GetHabitTrackers net c authToken clientID date sent)))))"
proof -
  have "fst (GetHabitTrackers net c authToken clientID date sent)
      = map_sum id (\<lambda>res. Response (ResultOf res)) (fst (Get net (httpClient c)
          (SetResult store_wrapper zero_wrapper
            (SetHeader ''Authorization'' (''Bearer '' @ authToken)
              (SetQueryParam ''date'' date (R (httpClient c)))))
          (''/clients/'' @ clientID @ ''/habit_trackers'') sent))"
    by (simp only: GetHabitTrackers_def fst_case_result)
  also have "\<dots> = map_sum id Response (map_sum id ResultOf (fst (Get net (httpClient c)
          (SetResult store_wrapper zero_wrapper
            (SetHeader ''Authorization'' (''Bearer '' @ authToken)
              (SetQueryParam ''date'' date (R (httpClient c)))))
          (''/clients/'' @ clientID @ ''/habit_trackers'') sent)))"
    by (simp only: map_sum_comp_id)
  also have "\<dots> = map_sum id Response
       (outcome store_wrapper zero_wrapper
          (net sent (last (snd (GetHabitTrackers net c authToken clientID date sent)))))"
    by (simp add: Get_def Execute_result GetHabitTrackers_sent prepareRequest_def SetResult_def
        SetHeader_def SetQueryParam_def R_def)
  finally show ?thesis .
qed

section \<open>The envelope of the habit trackers\<close>

lemma first_error_right: "first_error e None = e"
  by (simp add: first_error_def split: option.splits)

lemma Unmarshal_wrapper:
  "map_sum id Response
     (Unmarshal store_wrapper zero_wrapper (Some (JObject [(''response'', inner)])))
   = Unmarshal store_HabitTrackerResponse zero_HabitTrackerResponse (Some inner)"
  by (simp add: Unmarshal_def store_wrapper_def fields_wrapper_def store_struct_def resolve_def
      field_def zero_wrapper_def first_error_right split: sum.splits prod.splits option.splits)

lemma GetHabitTrackers_unwraps:
  assumes "net sent (last (snd (GetHabitTrackers net c tok cid date sent))) = Inr resp"
    and "decoded resp"
    and "payload resp = Some (JObject [(''response'', inner)])"
  shows "fst (GetHabitTrackers net c tok cid date sent)
    = Unmarshal store_HabitTrackerResponse zero_HabitTrackerResponse (Some inner)"
  using assms by (simp add: GetHabitTrackers_result outcome_def Unmarshal_wrapper)

lemma floats_of_full_entry:
  "ParseFloat (JInt False 2100) \<noteq> None"
  "ParseFloat (JDec False 1505 (- 1)) \<noteq> None"
  "ParseFloat (JInt False 250) \<noteq> None"
  "ParseFloat (JInt False 70) \<noteq> None"
  "ParseFloat (JDec False 705 (- 1)) \<noteq> None"
  "ParseFloat (JDec False 75 (- 1)) \<noteq> None"
  "ParseFloat (JInt False 3) \<noteq> None"
  "ParseFloat (JInt False 2) \<noteq> None"
  "ParseFloat (JInt False 0) \<noteq> None"
  by (simp_all add: number_eval)

lemma full_entry_decodes:
  "\<exists>t. store_HabitTrackerTracking (JObject full_entry) zero_HabitTrackerTracking = Inr (t, None)"
  using floats_of_full_entry
  by (auto simp add: full_entry_def store_HabitTrackerTracking_def fields_HabitTrackerTracking_def
      decode_eval simp del: ParseFloat.simps)

section \<open>The operations: properties\<close>

lemma HabitTrackerResponse_example:
  "Unmarshal store_HabitTrackerResponse zero_HabitTrackerResponse
     (Some (JObject [(''trackings'', JArray [JObject [(''id'', JNumber (JInt False 7))]]),
                     (''is_previous'', JBool True)]))
   = Inr (zero_HabitTrackerResponse
       \<lparr>Trackings := [zero_HabitTrackerTracking\<lparr>TrackingID := 7\<rparr>], IsPrevious := True\<rparr>)"
  by (simp add: Unmarshal_def store_HabitTrackerResponse_def fields_HabitTrackerResponse_def
      decode_eval store_slice_def store_HabitTrackerTracking_def fields_HabitTrackerTracking_def
      zero_HabitTrackerResponse_def zero_HabitTrackerTracking_def Trackings_slice_def
      Trackings_slice_update_def)

text \<open>
  Claim C6. When the body of the answer is \<open>{"response": inner}\<close>, \<open>GetHabitTrackers\<close>
  returns what decoding \<open>inner\<close> as a \<open>HabitTrackerResponse\<close> gives, its error included:
  the caller gets the inner object, with \<open>Trackings\<close> and \<open>IsPrevious\<close> as its own
  fields, and never the wrapper.
\<close>

theorem GetHabitTrackers_returns_inner_object:
  "(\<forall>resp inner.
      net sent (last (snd (GetHabitTrackers net c tok cid date sent))) = Inr resp
      \<and> decoded resp \<and> payload resp = Some (JObject [(''response'', inner)]) \<longrightarrow>
      fst (GetHabitTrackers net c tok cid date sent)
        = Unmarshal store_HabitTrackerResponse zero_HabitTrackerResponse (Some inner))
   \<and> fst (GetHabitTrackers
        (answering 200 (Some (JObject [(''response'',
           JObject [(''trackings'', JArray [JObject [(''id'', JNumber (JInt False 7))]]),
                    (''is_previous'', JBool True)])])))
        c tok cid date sent)
      = Inr (zero_HabitTrackerResponse
          \<lparr>Trackings := [zero_HabitTrackerTracking\<lparr>TrackingID := 7\<rparr>],
           IsPrevious := True\<rparr>)"
proof (intro conjI allI impI)
  fix resp inner
  assume "net sent (last (snd (GetHabitTrackers net c tok cid date sent))) = Inr resp
      \<and> decoded resp \<and> payload resp = Some (JObject [(''response'', inner)])"
  then have "net sent (last (snd (GetHabitTrackers net c tok cid date sent))) = Inr resp"
    and "decoded resp" and "payload resp = Some (JObject [(''response'', inner)])"
    by simp_all
  then show "fst (GetHabitTrackers net c tok cid date sent)
        = Unmarshal store_HabitTrackerResponse zero_HabitTrackerResponse (Some inner)"
    by (rule GetHabitTrackers_unwraps)
next
  have "fst (GetHabitTrackers
        (answering 200 (Some (JObject [(''response'',
           JObject [(''trackings'', JArray [JObject [(''id'', JNumber (JInt False 7))]]),
                    (''is_previous'', JBool True)])])))
        c tok cid date sent)
      = Unmarshal store_HabitTrackerResponse zero_HabitTrackerResponse
          (Some (JObject [(''trackings'', JArray [JObject [(''id'', JNumber (JInt False 7))]]),
                    (''is_previous'', JBool True)]))"
    by (rule GetHabitTrackers_unwraps [where resp = "\<lparr>status = 200, payload = Some (JObject [(''response'',
           JObject [(''trackings'', JArray [JObject [(''id'', JNumber (JInt False 7))]]),
                    (''is_previous'', JBool True)])]), blank = False, redirect_to = NoLocation\<rparr>"])
      (simp_all add: answering_def decoded_def)
  then show "fst (GetHabitTrackers
        (answering 200 (Some (JObject [(''response'',
           JObject [(''trackings'', JArray [JObject [(''id'', JNumber (JInt False 7))]]),
                    (''is_previous'', JBool True)])])))
        c tok cid date sent)
      = Inr (zero_HabitTrackerResponse
          \<lparr>Trackings := [zero_HabitTrackerTracking\<lparr>TrackingID := 7\<rparr>],
           IsPrevious := True\<rparr>)"
    by (simp only: HabitTrackerResponse_example)
qed

theorem GetHabitTrackers_returns_inner_object_witness:
  "answering 200 (Some (JObject [(''response'', JObject [(''is_previous'', JBool True)])])) []
     (last (snd (GetHabitTrackers
        (answering 200 (Some (JObject [(''response'', JObject [(''is_previous'', JBool True)])])))
        NewClient ''token'' ''77'' ''Feb 1, 2026'' [])))
     = Inr \<lparr>status = 200,
            payload = Some (JObject [(''response'', JObject [(''is_previous'', JBool True)])]),
            blank = False, redirect_to = NoLocation\<rparr>
   \<and> decoded \<lparr>status = 200,
        payload = Some (JObject [(''response'', JObject [(''is_previous'', JBool True)])]),
        blank = False, redirect_to = NoLocation\<rparr>
   \<and> fst (GetHabitTrackers
        (answering 200 (Some (JObject [(''response'', JObject [(''is_previous'', JBool True)])])))
        NewClient ''token'' ''77'' ''Feb 1, 2026'' [])
      = Inr (zero_HabitTrackerResponse\<lparr>IsPrevious := True\<rparr>)"
proof -
  let ?doc = "Some (JObject [(''response'', JObject [(''is_previous'', JBool True)])])"
  let ?resp = "\<lparr>status = 200, payload = ?doc, blank = False, redirect_to = NoLocation\<rparr>"
  have answer: "answering 200 ?doc []
     (last (snd (GetHabitTrackers (answering 200 ?doc) NewClient ''token'' ''77''
        ''Feb 1, 2026'' []))) = Inr ?resp"
    by (simp add: answering_def)
  have ok: "decoded ?resp" by (simp add: decoded_def)
  have inner: "Unmarshal store_HabitTrackerResponse zero_HabitTrackerResponse
      (Some (JObject [(''is_previous'', JBool True)]))
      = Inr (zero_HabitTrackerResponse\<lparr>IsPrevious := True\<rparr>)"
    by (simp add: Unmarshal_def store_HabitTrackerResponse_def fields_HabitTrackerResponse_def
        decode_eval zero_HabitTrackerResponse_def)
  from GetHabitTrackers_returns_inner_object
    [of "answering 200 ?doc" "[]" NewClient "''token''" "''77''" "''Feb 1, 2026''"]
  have "fst (GetHabitTrackers (answering 200 ?doc) NewClient ''token'' ''77'' ''Feb 1, 2026'' [])
      = Unmarshal store_HabitTrackerResponse zero_HabitTrackerResponse
          (Some (JObject [(''is_previous'', JBool True)]))"
    using answer ok by (elim conjE allE [where x = "?resp"] allE [where x = "JObject [(''is_previous'', JBool True)]"]) simp
  then show ?thesis using answer ok inner by simp
qed



lemma token_frame:
  assumes "map_of fields_TokenResponse n = Some st'" and "st' v c = Inr (c', e)"
  shows "n \<noteq> ''access_token'' \<Longrightarrow> AccessToken c' = AccessToken c"
    and "n \<noteq> ''token_type'' \<Longrightarrow> TokenType c' = TokenType c"
    and "n \<noteq> ''user_id'' \<Longrightarrow> UserID c' = UserID c"
  using assms
  by (auto simp: fields_TokenResponse_def field_def split: if_splits sum.splits)

lemma Unmarshal_object:
  "Unmarshal (store_struct ty fs) z (Some (JObject ms)) = Inr t
     \<Longrightarrow> object_into fs ms z = Inr (t, None)"
  by (auto simp: Unmarshal_def store_struct_def split: sum.splits prod.splits option.splits)

lemma token_fields:
  assumes "Unmarshal store_TokenResponse zero_TokenResponse (Some (JObject ms)) = Inr t"
  shows "holds (AccessToken t) [] as_string
           (last_member (map fst fields_TokenResponse) ''access_token'' (filter not_null ms))"
    and "holds (TokenType t) [] as_string
           (last_member (map fst fields_TokenResponse) ''token_type'' (filter not_null ms))"
    and "holds (UserID t) [] as_ClientID
           (last_member (map fst fields_TokenResponse) ''user_id'' ms)"
proof -
  have run: "object_into fields_TokenResponse ms zero_TokenResponse = Inr (t, None)"
    using assms unfolding store_TokenResponse_def by (rule Unmarshal_object)
  have "holds (AccessToken t) (AccessToken zero_TokenResponse) as_string
      (last_member (map fst fields_TokenResponse) ''access_token'' (filter not_null ms))"
    by (rule scalar_field_holds [where upd = AccessToken_update and st = store_string,
          OF _ _ store_string_value _ run])
      (simp_all add: fields_TokenResponse_def [symmetric] token_frame,
        simp add: fields_TokenResponse_def)
  then show "holds (AccessToken t) [] as_string
      (last_member (map fst fields_TokenResponse) ''access_token'' (filter not_null ms))"
    by (simp add: zero_TokenResponse_def)
  have "holds (TokenType t) (TokenType zero_TokenResponse) as_string
      (last_member (map fst fields_TokenResponse) ''token_type'' (filter not_null ms))"
    by (rule scalar_field_holds [where upd = TokenType_update and st = store_string,
          OF _ _ store_string_value _ run])
      (simp_all add: fields_TokenResponse_def [symmetric] token_frame,
        simp add: fields_TokenResponse_def)
  then show "holds (TokenType t) [] as_string
      (last_member (map fst fields_TokenResponse) ''token_type'' (filter not_null ms))"
    by (simp add: zero_TokenResponse_def)
  have "holds (UserID t) (UserID zero_TokenResponse) as_ClientID
      (last_member (map fst fields_TokenResponse) ''user_id'' ms)"
    by (rule ClientID_field_holds [where upd = UserID_update, OF _ _ _ run])
      (simp_all add: fields_TokenResponse_def [symmetric] token_frame,
        simp add: fields_TokenResponse_def)
  then show "holds (UserID t) [] as_ClientID
      (last_member (map fst fields_TokenResponse) ''user_id'' ms)"
    by (simp add: zero_TokenResponse_def)
qed

lemma Login_answer:
  "fst (Login (answering code doc) c email password sent)
     = outcome store_TokenResponse zero_TokenResponse
         (Inr \<lparr>status = code, payload = doc, blank = False, redirect_to = NoLocation\<rparr>)"
  by (simp add: Login_result answering_def)

section \<open>What an operation returns\<close>

lemma Login_answer_empty:
  "fst (Login (answering_empty code) c email password sent)
     = outcome store_TokenResponse zero_TokenResponse
         (Inr \<lparr>status = code, payload = None, blank = True, redirect_to = NoLocation\<rparr>)"
  by (simp add: Login_result answering_empty_def)

lemma Unmarshal_empty_object:
  "Unmarshal (store_struct ty fs) z (Some (JObject [])) = Inr z"
  by (simp add: Unmarshal_def store_struct_def)

lemma outcome_empty_object:
  "outcome (store_struct ty fs) z
     (Inr \<lparr>status = 200, payload = Some (JObject []), blank = False, redirect_to = NoLocation\<rparr>)
   = Inr z"
  by (simp add: outcome_def decoded_def Unmarshal_empty_object)

text \<open>
  Claim C2, as stated, fails. A body \<open>{}\<close> with status 200 gives the zero-valued token
  and no error, and so does an empty body; so does a response with status 401, which is
  not treated as a failure; and a body with one of the three keys gives a token with the
  other two fields empty.
\<close>

theorem Login_returns_default_values_without_error:
  "fst (Login (answering 200 (Some (JObject []))) NewClient ''a@b.com'' ''secret'' [])
     = Inr \<lparr>AccessToken = [], TokenType = [], UserID = []\<rparr>
   \<and> fst (Login (answering_empty 200) NewClient ''a@b.com'' ''secret'' [])
     = Inr \<lparr>AccessToken = [], TokenType = [], UserID = []\<rparr>
   \<and> fst (Login (answering 401 (Some (JObject [(''error'', JString ''invalid_grant'')])))
          NewClient ''a@b.com'' ''wrong'' [])
     = Inr \<lparr>AccessToken = [], TokenType = [], UserID = []\<rparr>
   \<and> fst (Login (answering 200 (Some (JObject [(''access_token'', JString ''abc'')])))
          NewClient ''a@b.com'' ''secret'' [])
     = Inr \<lparr>AccessToken = ''abc'', TokenType = [], UserID = []\<rparr>"
  by (simp add: Login_answer Login_answer_empty outcome_def decoded_def Unmarshal_def
      store_TokenResponse_def fields_TokenResponse_def decode_eval zero_TokenResponse_def)

text \<open>
  Claim C2, amended, for responses with a JSON content type whose body is empty, or one
  JSON document, or no JSON at all. What an operation returns is decided by the answer to
  its one request. An error of the exchange is returned unchanged, with no result. For an
  answer with a status from 200 to 299 other than 204 the operation returns what decoding
  the body gives: for a document the error of decoding it and no result, or the decoded
  value and no error; for an empty body the zero value of its result type and no error;
  for bytes that are no JSON an error and no result. For an answer with any other status
  it returns the zero value of its result type and no error. So a result returned without
  error may be partly or wholly zero: the body \<open>{}\<close> gives every operation the zero value
  of its result type, and in a token decoded from an object each field is what the last
  member selecting its key gave, and keeps its zero value without one.
\<close>

theorem operations_return_outcome_of_answer:
  "fst (Login net c email password sent)
     = outcome store_TokenResponse zero_TokenResponse
         (net sent (last (snd (Login net c email password sent))))
   \<and> fst (GetUserProfile net c token userID sent)
     = outcome store_UserProfileResponse zero_UserProfileResponse
         (net sent (last (snd (GetUserProfile net c token userID sent))))
   \<and> fst (GetHabitTrackers net c token clientID date sent)
     = map_sum id Response
         (outcome store_wrapper zero_wrapper
            (net sent (last (snd (GetHabitTrackers net c token clientID date sent)))))
   \<and> (\<forall>(st :: 'a store) z e. outcome st z (Inl e) = Inl e)
   \<and> (\<forall>(st :: 'a store) z resp doc. decoded resp \<and> payload resp = Some doc \<longrightarrow>
         outcome st z (Inr resp) = Unmarshal st z (Some doc))
   \<and> (\<forall>(st :: 'a store) z resp. decoded resp \<and> payload resp = None \<and> blank resp \<longrightarrow>
         outcome st z (Inr resp) = Inr z)
   \<and> (\<forall>(st :: 'a store) z resp. decoded resp \<and> payload resp = None \<and> \<not> blank resp \<longrightarrow>
         (\<exists>e. outcome st z (Inr resp) = Inl e))
   \<and> (\<forall>(st :: 'a store) z resp. \<not> decoded resp \<longrightarrow> outcome st z (Inr resp) = Inr z)
   \<and> fst (Login (answering 200 (Some (JObject []))) c email password sent)
       = Inr zero_TokenResponse
   \<and> fst (GetUserProfile (answering 200 (Some (JObject []))) c token userID sent)
       = Inr zero_UserProfileResponse
   \<and> fst (GetHabitTrackers (answering 200 (Some (JObject []))) c token clientID date sent)
       = Inr zero_HabitTrackerResponse
   \<and> (\<forall>ms t. Unmarshal store_TokenResponse zero_TokenResponse (Some (JObject ms)) = Inr t \<longrightarrow>
         holds (AccessToken t) [] as_string
           (last_member (map fst fields_TokenResponse) ''access_token'' (filter not_null ms))
         \<and> holds (TokenType t) [] as_string
             (last_member (map fst fields_TokenResponse) ''token_type'' (filter not_null ms))
         \<and> holds (UserID t) [] as_ClientID
             (last_member (map fst fields_TokenResponse) ''user_id'' ms))"
proof (intro conjI allI impI)
  fix ms t
  assume run: "Unmarshal store_TokenResponse zero_TokenResponse (Some (JObject ms)) = Inr t"
  show "holds (AccessToken t) [] as_string
      (last_member (map fst fields_TokenResponse) ''access_token'' (filter not_null ms))"
    using run by (rule token_fields)
  show "holds (TokenType t) [] as_string
      (last_member (map fst fields_TokenResponse) ''token_type'' (filter not_null ms))"
    using run by (rule token_fields)
  show "holds (UserID t) [] as_ClientID
      (last_member (map fst fields_TokenResponse) ''user_id'' ms)"
    using run by (rule token_fields)
next
  show "fst (Login (answering 200 (Some (JObject []))) c email password sent)
       = Inr zero_TokenResponse"
    by (simp add: Login_result answering_def store_TokenResponse_def outcome_empty_object)
  show "fst (GetUserProfile (answering 200 (Some (JObject []))) c token userID sent)
       = Inr zero_UserProfileResponse"
    by (simp add: GetUserProfile_result answering_def store_UserProfileResponse_def
        outcome_empty_object)
  show "fst (GetHabitTrackers (answering 200 (Some (JObject []))) c token clientID date sent)
       = Inr zero_HabitTrackerResponse"
    by (simp add: GetHabitTrackers_result answering_def store_wrapper_def
        outcome_empty_object zero_wrapper_def)
qed (simp_all add: Login_result GetUserProfile_result GetHabitTrackers_result outcome_def)

theorem operations_return_outcome_of_answer_witness:
  "decoded \<lparr>status = 200, payload = Some (JObject []), blank = False, redirect_to = NoLocation\<rparr>
   \<and> outcome store_TokenResponse zero_TokenResponse
       (Inr \<lparr>status = 200, payload = Some (JObject []), blank = False,
             redirect_to = NoLocation\<rparr>) = Inr zero_TokenResponse
   \<and> outcome store_TokenResponse zero_TokenResponse
       (Inr \<lparr>status = 200, payload = None, blank = True, redirect_to = NoLocation\<rparr>)
       = Inr zero_TokenResponse
   \<and> (\<exists>e. outcome store_TokenResponse zero_TokenResponse
       (Inr \<lparr>status = 200, payload = None, blank = False, redirect_to = NoLocation\<rparr>) = Inl e)
   \<and> \<not> decoded \<lparr>status = 401, payload = None, blank = False, redirect_to = NoLocation\<rparr>
   \<and> outcome store_TokenResponse zero_TokenResponse
       (Inr \<lparr>status = 401, payload = None, blank = False, redirect_to = NoLocation\<rparr>)
       = Inr zero_TokenResponse
   \<and> holds (AccessToken zero_TokenResponse) [] as_string
       (last_member (map fst fields_TokenResponse) ''access_token'' (filter not_null []))"
proof -
  let ?ok = "\<lparr>status = 200, payload = Some (JObject []), blank = False, redirect_to = NoLocation\<rparr>"
  let ?empty = "\<lparr>status = 200, payload = None, blank = True, redirect_to = NoLocation\<rparr>"
  let ?bad = "\<lparr>status = 200, payload = None, blank = False, redirect_to = NoLocation\<rparr>"
  let ?no = "\<lparr>status = 401, payload = None, blank = False, redirect_to = NoLocation\<rparr>"
  have ok: "decoded ?ok \<and> payload ?ok = Some (JObject [])"
    and empty: "decoded ?empty \<and> payload ?empty = None \<and> blank ?empty"
    and bad: "decoded ?bad \<and> payload ?bad = None \<and> \<not> blank ?bad"
    and no: "\<not> decoded ?no"
    by (simp_all add: decoded_def)
  have obj: "Unmarshal store_TokenResponse zero_TokenResponse (Some (JObject []))
      = Inr zero_TokenResponse"
    by (simp add: Unmarshal_def store_TokenResponse_def store_struct_def)
  from operations_return_outcome_of_answer
    [where 'a = TokenResponse, of "answering 200 None" NewClient "''a@b.com''" "''secret''" "[]"
      "''token''" "''1''" "''77''" "''Feb 1, 2026''"]
  have dec: "\<And>(st :: TokenResponse store) z resp doc. decoded resp \<and> payload resp = Some doc \<Longrightarrow>
      outcome st z (Inr resp) = Unmarshal st z (Some doc)"
    and emp: "\<And>(st :: TokenResponse store) z resp.
      decoded resp \<and> payload resp = None \<and> blank resp \<Longrightarrow> outcome st z (Inr resp) = Inr z"
    and mal: "\<And>(st :: TokenResponse store) z resp.
      decoded resp \<and> payload resp = None \<and> \<not> blank resp \<Longrightarrow> \<exists>e. outcome st z (Inr resp) = Inl e"
    and other: "\<And>(st :: TokenResponse store) z resp. \<not> decoded resp \<Longrightarrow>
      outcome st z (Inr resp) = Inr z"
    and fields: "\<And>ms t. Unmarshal store_TokenResponse zero_TokenResponse (Some (JObject ms)) = Inr t
      \<Longrightarrow> holds (AccessToken t) [] as_string
        (last_member (map fst fields_TokenResponse) ''access_token'' (filter not_null ms))"
    by blast+
  show ?thesis
    using ok no dec [OF ok, of store_TokenResponse zero_TokenResponse]
      emp [OF empty, of store_TokenResponse zero_TokenResponse]
      mal [OF bad, of store_TokenResponse zero_TokenResponse]
      other [OF no, of store_TokenResponse zero_TokenResponse] fields [OF obj] obj
    by simp
qed

section \<open>Tracking entries: properties\<close>

lemma array_into_fresh:
  "array_into st zero [] vs = Inr (xs, None)
    \<Longrightarrow> list_all2 (\<lambda>v x. st v zero = Inr (x, None)) vs xs"
proof (induction vs arbitrary: xs)
  case Nil
  then show ?case by simp
next
  case (Cons v vs)
  from Cons.prems obtain x ys where x: "st v zero = Inr (x, None)"
    and rest: "array_into st zero [] vs = Inr (ys, None)" and xs: "xs = x # ys"
    by (auto split: sum.splits prod.splits)
  show ?case using Cons.IH [OF rest] x xs by simp
qed

lemma object_into_untouched:
  assumes frame: "\<And>n st' v c c'. map_of fs n = Some st' \<Longrightarrow> n \<noteq> f \<Longrightarrow>
        st' v c = Inr (c', None) \<Longrightarrow> get c' = get c"
  shows "object_into fs ms c = Inr (c', None) \<Longrightarrow> selecting (map fst fs) f ms = []
    \<Longrightarrow> get c' = get c"
proof (induction ms arbitrary: c)
  case Nil
  then show ?case by simp
next
  case (Cons m ms)
  obtain k v where m: "m = (k, v)" by (cases m)
  have nof: "resolve (map fst fs) k \<noteq> Some f" and none: "selecting (map fst fs) f ms = []"
    using Cons.prems(2) m by (auto simp: selecting_def split: if_splits)
  show ?case
  proof (cases "resolve (map fst fs) k")
    case None
    then have rest: "object_into fs ms c = Inr (c', None)" using Cons.prems m by simp
    show ?thesis using Cons.IH [OF rest none] .
  next
    case (Some n)
    then have nf: "n \<noteq> f" using nof by simp
    show ?thesis
    proof (cases "map_of fs n")
      case None
      have rest: "object_into fs ms c = Inr (c', None)" using Cons.prems m Some None by simp
      show ?thesis using Cons.IH [OF rest none] .
    next
      case st': (Some st')
      from Cons.prems m Some st' obtain c1 where
        c1: "st' v c = Inr (c1, None)" and rest: "object_into fs ms c1 = Inr (c', None)"
        by (auto split: sum.splits prod.splits)
      have "get c1 = get c" using frame [OF st' nf c1] .
      then show ?thesis using Cons.IH [OF rest none] by simp
    qed
  qed
qed

lemma object_into_single:
  assumes own: "map_of fs f = Some st"
    and frame: "\<And>n st' v c c'. map_of fs n = Some st' \<Longrightarrow> n \<noteq> f \<Longrightarrow>
        st' v c = Inr (c', None) \<Longrightarrow> get c' = get c"
  shows "object_into fs ms c = Inr (c', None) \<Longrightarrow> selecting (map fst fs) f ms = [(k, v)]
    \<Longrightarrow> \<exists>c0 c1. get c0 = get c \<and> st v c0 = Inr (c1, None) \<and> get c' = get c1"
proof (induction ms arbitrary: c)
  case Nil
  then show ?case by (simp add: selecting_def)
next
  case (Cons m ms)
  obtain k' v' where m: "m = (k', v')" by (cases m)
  show ?case
  proof (cases "resolve (map fst fs) k'")
    case None
    then have rest: "object_into fs ms c = Inr (c', None)" using Cons.prems m by simp
    have sel: "selecting (map fst fs) f ms = [(k, v)]"
      using Cons.prems(2) m None by (simp add: selecting_def)
    show ?thesis using Cons.IH [OF rest sel] .
  next
    case (Some n)
    show ?thesis
    proof (cases "map_of fs n")
      case None
      then have nf: "n \<noteq> f" using own by auto
      have rest: "object_into fs ms c = Inr (c', None)" using Cons.prems m Some None by simp
      have sel: "selecting (map fst fs) f ms = [(k, v)]"
        using Cons.prems(2) m Some nf by (simp add: selecting_def)
      show ?thesis using Cons.IH [OF rest sel] .
    next
      case st': (Some st')
      from Cons.prems m Some st' obtain c1 where
        c1: "st' v' c = Inr (c1, None)" and rest: "object_into fs ms c1 = Inr (c', None)"
        by (auto split: sum.splits prod.splits)
      show ?thesis
      proof (cases "n = f")
        case False
        have same: "get c1 = get c" using frame [OF st' False c1] .
        have sel: "selecting (map fst fs) f ms = [(k, v)]"
          using Cons.prems(2) m Some False by (simp add: selecting_def)
        from Cons.IH [OF rest sel] same show ?thesis by simp
      next
        case True
        then have st: "st' = st" using st' own by simp
        have kv: "k' = k" "v' = v" and none: "selecting (map fst fs) f ms = []"
          using Cons.prems(2) m Some True by (simp_all add: selecting_def)
        have "get c' = get c1"
          using object_into_untouched [of fs f get, OF frame rest none] by simp
        then show ?thesis using c1 st kv by blast
      qed
    qed
  qed
qed


lemma response_frame:
  assumes "map_of fields_HabitTrackerResponse n = Some st'" and "st' v c = Inr (c', e)"
  shows "n \<noteq> ''trackings'' \<Longrightarrow> Trackings_slice c' = Trackings_slice c"
  using assms
  by (auto simp: fields_HabitTrackerResponse_def field_def Trackings_slice_def
      split: if_splits sum.splits)

lemma trackings_fresh:
  assumes answer: "net sent (last (snd (GetHabitTrackers net cl tok cid date sent))) = Inr resp"
    and ok: "decoded resp"
    and body: "payload resp = Some (JObject [(''response'', JObject ms)])"
    and sel: "selecting (map fst fields_HabitTrackerResponse) ''trackings'' ms = [(k, JArray vs)]"
    and run: "fst (GetHabitTrackers net cl tok cid date sent) = Inr r"
  shows "list_all2 (\<lambda>v t. store_HabitTrackerTracking v zero_HabitTrackerTracking = Inr (t, None))
    vs (Trackings r)"
proof -
  let ?st = "field Trackings_slice Trackings_slice_update
      (store_slice store_HabitTrackerTracking zero_HabitTrackerTracking
         ''[]truecoach.HabitTrackerTracking'')"
  have "Unmarshal store_HabitTrackerResponse zero_HabitTrackerResponse (Some (JObject ms)) = Inr r"
    using GetHabitTrackers_unwraps [where net = net and sent = sent, OF answer ok body] run by simp
  then have obj: "object_into fields_HabitTrackerResponse ms zero_HabitTrackerResponse
      = Inr (r, None)"
    unfolding store_HabitTrackerResponse_def by (rule Unmarshal_object)
  have own: "map_of fields_HabitTrackerResponse ''trackings'' = Some ?st"
    by (simp add: fields_HabitTrackerResponse_def)
  have "\<exists>c0 c1. Trackings_slice c0 = Trackings_slice zero_HabitTrackerResponse
      \<and> ?st (JArray vs) c0 = Inr (c1, None) \<and> Trackings_slice r = Trackings_slice c1"
    by (rule object_into_single [OF own _ obj sel]) (rule response_frame)
  then obtain c0 c1 where c0: "Trackings_slice c0 = ([], [])"
    and c1: "?st (JArray vs) c0 = Inr (c1, None)"
    and r: "Trackings_slice r = Trackings_slice c1"
    by (auto simp: Trackings_slice_def zero_HabitTrackerResponse_def)
  from c1 c0 obtain xs where
    xs: "array_into store_HabitTrackerTracking zero_HabitTrackerTracking [] vs = Inr (xs, None)"
    and "Trackings c1 = xs"
    by (auto simp: field_def store_slice_def Trackings_slice_update_def
        split: sum.splits prod.splits)
  then have "Trackings r = xs" using r by (simp add: Trackings_slice_def)
  then show ?thesis using array_into_fresh [OF xs] by simp
qed

lemma zero_tracking_metrics:
  "Calories zero_HabitTrackerTracking = None"
  "Protein zero_HabitTrackerTracking = None"
  "Carbs zero_HabitTrackerTracking = None"
  "Fat zero_HabitTrackerTracking = None"
  "TrackingWeight zero_HabitTrackerTracking = None"
  "Sleep zero_HabitTrackerTracking = None"
  "Steps zero_HabitTrackerTracking = None"
  "Energy zero_HabitTrackerTracking = None"
  "Hunger zero_HabitTrackerTracking = None"
  "Stress zero_HabitTrackerTracking = None"
  "Notes zero_HabitTrackerTracking = None"
  by (simp_all add: zero_HabitTrackerTracking_def)

lemma trackings_twice:
  "Unmarshal store_HabitTrackerResponse zero_HabitTrackerResponse
     (Some (JObject [(''trackings'', JArray [JObject [(''steps'', JNumber (JInt False 5))]]),
                     (''trackings'', JArray [JObject [(''date'', JString ''d'')]])]))
   = Inr (zero_HabitTrackerResponse
       \<lparr>Trackings := [zero_HabitTrackerTracking\<lparr>Date := ''d'', Steps := Some 5\<rparr>]\<rparr>)"
  by (simp add: Unmarshal_def store_HabitTrackerResponse_def fields_HabitTrackerResponse_def
      decode_eval store_slice_def store_HabitTrackerTracking_def fields_HabitTrackerTracking_def
      zero_HabitTrackerResponse_def zero_HabitTrackerTracking_def Trackings_slice_def
      Trackings_slice_update_def)

text \<open>
  Claim C7, as stated, fails. When the object under \<open>response\<close> names \<open>trackings\<close> twice,
  the entries of the second array are decoded into the entries that the first array
  left: the entry \<open>{"date": "d"}\<close>, which has no key \<open>steps\<close>, is returned with the steps
  \<open>5\<close> of the entry before it.
\<close>

theorem tracking_entry_keeps_earlier_metric:
  "fst (GetHabitTrackers
     (answering 200 (Some (JObject [(''response'',
        JObject [(''trackings'', JArray [JObject [(''steps'', JNumber (JInt False 5))]]),
                 (''trackings'', JArray [JObject [(''date'', JString ''d'')]])])])))
     NewClient ''token'' ''77'' ''Feb 1, 2026'' [])
   = Inr (zero_HabitTrackerResponse
       \<lparr>Trackings := [zero_HabitTrackerTracking\<lparr>Date := ''d'', Steps := Some 5\<rparr>]\<rparr>)
   \<and> last_member (map fst fields_HabitTrackerTracking) ''steps'' [(''date'', JString ''d'')]
       = None"
proof -
  have "fst (GetHabitTrackers
     (answering 200 (Some (JObject [(''response'',
        JObject [(''trackings'', JArray [JObject [(''steps'', JNumber (JInt False 5))]]),
                 (''trackings'', JArray [JObject [(''date'', JString ''d'')]])])])))
     NewClient ''token'' ''77'' ''Feb 1, 2026'' [])
   = Unmarshal store_HabitTrackerResponse zero_HabitTrackerResponse
       (Some (JObject [(''trackings'', JArray [JObject [(''steps'', JNumber (JInt False 5))]]),
                       (''trackings'', JArray [JObject [(''date'', JString ''d'')]])]))"
    by (rule GetHabitTrackers_unwraps [where resp = "\<lparr>status = 200, payload = Some (JObject [(''response'',
        JObject [(''trackings'', JArray [JObject [(''steps'', JNumber (JInt False 5))]]),
                 (''trackings'', JArray [JObject [(''date'', JString ''d'')]])])]),
        blank = False, redirect_to = NoLocation\<rparr>"])
      (simp_all add: answering_def decoded_def)
  then show ?thesis
    by (simp add: trackings_twice fields_HabitTrackerTracking_def resolve_def)
qed

text \<open>
  Claim C7, amended. In every tracking entry that decodes, each of the eleven optional
  metrics follows the last member of the entry for its key: a value other than \<open>null\<close>
  makes it present with the value read from it (the integer of the literal for \<open>steps\<close>,
  the float of the literal for the other numbers, the string for \<open>notes\<close>), \<open>null\<close>
  makes it absent, and without such a member the metric keeps what the element held
  before. The element is a fresh one, with every metric absent, for every entry of a body
  \<open>{"response": {...}}\<close> in which one member names \<open>trackings\<close>. An entry that
  decodes still decodes when any of its members are left out, whatever the element held,
  and an entry with all sixteen keys decodes: no field needs another to be there. So in a
  fresh element an entry with \<open>"steps": null\<close> and no weight has both absent, and one
  with \<open>"steps": 5000\<close> and \<open>"weight": 70.5\<close> has \<open>5000\<close> and the float that is exactly
  \<open>70.5\<close>.
\<close>

theorem tracking_optional_metrics:
  "(\<forall>v c t. store_HabitTrackerTracking v c = Inr (t, None) \<longrightarrow>
       reports (Calories c) (Calories t) as_float
            (last_member (map fst fields_HabitTrackerTracking) ''calories'' (members v))
       \<and> reports (Protein c) (Protein t) as_float
            (last_member (map fst fields_HabitTrackerTracking) ''protein'' (members v))
       \<and> reports (Carbs c) (Carbs t) as_float
            (last_member (map fst fields_HabitTrackerTracking) ''carbs'' (members v))
       \<and> reports (Fat c) (Fat t) as_float
            (last_member (map fst fields_HabitTrackerTracking) ''fat'' (members v))
       \<and> reports (TrackingWeight c) (TrackingWeight t) as_float
            (last_member (map fst fields_HabitTrackerTracking) ''weight'' (members v))
       \<and> reports (Sleep c) (Sleep t) as_float
            (last_member (map fst fields_HabitTrackerTracking) ''sleep'' (members v))
       \<and> reports (Steps c) (Steps t) as_int
            (last_member (map fst fields_HabitTrackerTracking) ''steps'' (members v))
       \<and> reports (Energy c) (Energy t) as_float
            (last_member (map fst fields_HabitTrackerTracking) ''energy'' (members v))
       \<and> reports (Hunger c) (Hunger t) as_float
            (last_member (map fst fields_HabitTrackerTracking) ''hunger'' (members v))
       \<and> reports (Stress c) (Stress t) as_float
            (last_member (map fst fields_HabitTrackerTracking) ''stress'' (members v))
       \<and> reports (Notes c) (Notes t) as_string
            (last_member (map fst fields_HabitTrackerTracking) ''notes'' (members v)))
   \<and> (\<forall>resp ms k vs r.
        net sent (last (snd (GetHabitTrackers net cl tok cid date sent))) = Inr resp
        \<and> decoded resp \<and> payload resp = Some (JObject [(''response'', JObject ms)])
        \<and> selecting (map fst fields_HabitTrackerResponse) ''trackings'' ms = [(k, JArray vs)]
        \<and> fst (GetHabitTrackers net cl tok cid date sent) = Inr r \<longrightarrow>
        list_all2 (\<lambda>v t. store_HabitTrackerTracking v zero_HabitTrackerTracking = Inr (t, None))
          vs (Trackings r))
   \<and> (\<forall>ms c t P c'.
        store_HabitTrackerTracking (JObject ms) c = Inr (t, None) \<longrightarrow>
        (\<exists>t'. store_HabitTrackerTracking (JObject (filter P ms)) c' = Inr (t', None)))
   \<and> (\<exists>t. store_HabitTrackerTracking (JObject full_entry) zero_HabitTrackerTracking
         = Inr (t, None))
   \<and> Calories zero_HabitTrackerTracking = None
   \<and> Protein zero_HabitTrackerTracking = None
   \<and> Carbs zero_HabitTrackerTracking = None
   \<and> Fat zero_HabitTrackerTracking = None
   \<and> TrackingWeight zero_HabitTrackerTracking = None
   \<and> Sleep zero_HabitTrackerTracking = None
   \<and> Steps zero_HabitTrackerTracking = None
   \<and> Energy zero_HabitTrackerTracking = None
   \<and> Hunger zero_HabitTrackerTracking = None
   \<and> Stress zero_HabitTrackerTracking = None
   \<and> Notes zero_HabitTrackerTracking = None
   \<and> store_HabitTrackerTracking (JObject [(''steps'', JNull)]) zero_HabitTrackerTracking
       = Inr (zero_HabitTrackerTracking, None)
   \<and> store_HabitTrackerTracking
        (JObject [(''steps'', JNumber (JInt False 5000)),
                  (''weight'', JNumber (JDec False 705 (- 1)))])
        zero_HabitTrackerTracking
       = Inr (zero_HabitTrackerTracking
           \<lparr>TrackingWeight := Some (Float64 False 4960996464525312 (- 46)),
            Steps := Some 5000\<rparr>, None)
   \<and> magnitude (Float64 False 4960996464525312 (- 46)) = 705 / 10"
proof -
  have metrics:
    "(\<forall>v c t. store_HabitTrackerTracking v c = Inr (t, None) \<longrightarrow>
       reports (Calories c) (Calories t) as_float
            (last_member (map fst fields_HabitTrackerTracking) ''calories'' (members v))
       \<and> reports (Protein c) (Protein t) as_float
            (last_member (map fst fields_HabitTrackerTracking) ''protein'' (members v))
       \<and> reports (Carbs c) (Carbs t) as_float
            (last_member (map fst fields_HabitTrackerTracking) ''carbs'' (members v))
       \<and> reports (Fat c) (Fat t) as_float
            (last_member (map fst fields_HabitTrackerTracking) ''fat'' (members v))
       \<and> reports (TrackingWeight c) (TrackingWeight t) as_float
            (last_member (map fst fields_HabitTrackerTracking) ''weight'' (members v))
       \<and> reports (Sleep c) (Sleep t) as_float
            (last_member (map fst fields_HabitTrackerTracking) ''sleep'' (members v))
       \<and> reports (Steps c) (Steps t) as_int
            (last_member (map fst fields_HabitTrackerTracking) ''steps'' (members v))
       \<and> reports (Energy c) (Energy t) as_float
            (last_member (map fst fields_HabitTrackerTracking) ''energy'' (members v))
       \<and> reports (Hunger c) (Hunger t) as_float
            (last_member (map fst fields_HabitTrackerTracking) ''hunger'' (members v))
       \<and> reports (Stress c) (Stress t) as_float
            (last_member (map fst fields_HabitTrackerTracking) ''stress'' (members v))
       \<and> reports (Notes c) (Notes t) as_string
            (last_member (map fst fields_HabitTrackerTracking) ''notes'' (members v)))"
    by (intro allI impI conjI) (erule tracking_metrics)+
  have fresh:
    "(\<forall>resp ms k vs r.
        net sent (last (snd (GetHabitTrackers net cl tok cid date sent))) = Inr resp
        \<and> decoded resp \<and> payload resp = Some (JObject [(''response'', JObject ms)])
        \<and> selecting (map fst fields_HabitTrackerResponse) ''trackings'' ms = [(k, JArray vs)]
        \<and> fst (GetHabitTrackers net cl tok cid date sent) = Inr r \<longrightarrow>
        list_all2 (\<lambda>v t. store_HabitTrackerTracking v zero_HabitTrackerTracking = Inr (t, None))
          vs (Trackings r))"
    by (intro allI impI) (elim conjE, rule trackings_fresh)
  have subset:
    "(\<forall>ms c t P c'.
        store_HabitTrackerTracking (JObject ms) c = Inr (t, None) \<longrightarrow>
        (\<exists>t'. store_HabitTrackerTracking (JObject (filter P ms)) c' = Inr (t', None)))"
    by (intro allI impI) (erule tracking_subset)
  have full:
    "(\<exists>t. store_HabitTrackerTracking (JObject full_entry) zero_HabitTrackerTracking
         = Inr (t, None))"
    by (rule full_entry_decodes)
  have z0:
    "Calories zero_HabitTrackerTracking = None"
    by (rule zero_tracking_metrics)
  have z1:
    "Protein zero_HabitTrackerTracking = None"
    by (rule zero_tracking_metrics)
  have z2:
    "Carbs zero_HabitTrackerTracking = None"
    by (rule zero_tracking_metrics)
  have z3:
    "Fat zero_HabitTrackerTracking = None"
    by (rule zero_tracking_metrics)
  have z4:
    "TrackingWeight zero_HabitTrackerTracking = None"
    by (rule zero_tracking_metrics)
  have z5:
    "Sleep zero_HabitTrackerTracking = None"
    by (rule zero_tracking_metrics)
  have z6:
    "Steps zero_HabitTrackerTracking = None"
    by (rule zero_tracking_metrics)
  have z7:
    "Energy zero_HabitTrackerTracking = None"
    by (rule zero_tracking_metrics)
  have z8:
    "Hunger zero_HabitTrackerTracking = None"
    by (rule zero_tracking_metrics)
  have z9:
    "Stress zero_HabitTrackerTracking = None"
    by (rule zero_tracking_metrics)
  have z10:
    "Notes zero_HabitTrackerTracking = None"
    by (rule zero_tracking_metrics)
  have absent:
    "store_HabitTrackerTracking (JObject [(''steps'', JNull)]) zero_HabitTrackerTracking
       = Inr (zero_HabitTrackerTracking, None)"
    by (rule tracking_example_absent)
  have present:
    "store_HabitTrackerTracking
        (JObject [(''steps'', JNumber (JInt False 5000)),
                  (''weight'', JNumber (JDec False 705 (- 1)))])
        zero_HabitTrackerTracking
       = Inr (zero_HabitTrackerTracking
           \<lparr>TrackingWeight := Some (Float64 False 4960996464525312 (- 46)),
            Steps := Some 5000\<rparr>, None)"
    by (rule tracking_example_present)
  have exact:
    "magnitude (Float64 False 4960996464525312 (- 46)) = 705 / 10"
    by (rule magnitude_70_5)
  from metrics fresh subset full z0 z1 z2 z3 z4 z5 z6 z7 z8 z9 z10 absent present exact show ?thesis
    by (intro conjI)
qed

theorem tracking_optional_metrics_witness:
  "store_HabitTrackerTracking (JObject [(''steps'', JNumber (JInt False 5000)), (''notes'', JNull)])
     (zero_HabitTrackerTracking\<lparr>Sleep := Some zero_float64, Notes := Some ''x''\<rparr>)
   = Inr (zero_HabitTrackerTracking\<lparr>Sleep := Some zero_float64, Steps := Some 5000\<rparr>, None)
   \<and> reports None (Some 5000) as_int (Some (JNumber (JInt False 5000)))
   \<and> reports (Some ''x'') None as_string (Some JNull)
   \<and> reports (Some zero_float64) (Some zero_float64) as_float None
   \<and> (\<exists>t'. store_HabitTrackerTracking
          (JObject (filter not_null [(''steps'', JNumber (JInt False 5000)), (''notes'', JNull)]))
          zero_HabitTrackerTracking = Inr (t', None))"
proof -
  let ?ms = "[(''steps'', JNumber (JInt False 5000)), (''notes'', JNull)]"
  let ?c = "zero_HabitTrackerTracking\<lparr>Sleep := Some zero_float64, Notes := Some ''x''\<rparr>"
  let ?t = "zero_HabitTrackerTracking\<lparr>Sleep := Some zero_float64, Steps := Some 5000\<rparr>"
  have run: "store_HabitTrackerTracking (JObject ?ms) ?c = Inr (?t, None)"
    by (simp add: store_HabitTrackerTracking_def fields_HabitTrackerTracking_def decode_eval
        zero_HabitTrackerTracking_def)
  from tracking_optional_metrics
  have metrics: "\<And>v c t. store_HabitTrackerTracking v c = Inr (t, None)
      \<Longrightarrow> reports (Steps c) (Steps t) as_int
            (last_member (map fst fields_HabitTrackerTracking) ''steps'' (members v))
        \<and> reports (Notes c) (Notes t) as_string
            (last_member (map fst fields_HabitTrackerTracking) ''notes'' (members v))
        \<and> reports (Sleep c) (Sleep t) as_float
            (last_member (map fst fields_HabitTrackerTracking) ''sleep'' (members v))"
    and subset: "\<And>ms c t P c'.
      store_HabitTrackerTracking (JObject ms) c = Inr (t, None)
      \<Longrightarrow> \<exists>t'. store_HabitTrackerTracking (JObject (filter P ms)) c' = Inr (t', None)"
    by blast+
  show ?thesis
    using run metrics [OF run] subset [OF run, of not_null zero_HabitTrackerTracking]
    by (simp add: members_def zero_HabitTrackerTracking_def fields_HabitTrackerTracking_def
        resolve_def)
qed

end
